theory Spec2Isabelle
  imports Complex_Main
begin

section \<open>Heatwave-day pipeline of \<open>reproduce_6_3_6.py\<close>\<close>

text \<open>
  The script computes, from a gridded daily temperature record, the days that belong to a
  run of at least \<open>N\<close> consecutive days above a day-of-year threshold, counts them per
  year and cell, averages the counts over regions and smooths the regional series.

  Modelling decisions.
  \<^item> A floating-point value is a \<open>real option\<close>: \<open>None\<close> is NaN (xarray's and pandas'
    "missing"), \<open>Some x\<close> a number. Arithmetic on numbers is exact; rounding of IEEE
    doubles is not modelled. Comparisons with NaN are false, as in IEEE.
  \<^item> A three-dimensional \<open>DataArray\<close> is a record of its coordinates and its values.
    The values are stored cell-major, \<open>vals a ! i ! j ! t\<close> for latitude index \<open>i\<close>,
    longitude index \<open>j\<close> and index \<open>t\<close> along the leading dimension (\<open>time\<close>,
    \<open>dayofyear\<close> or \<open>year\<close>), so that an operation along the leading dimension is a
    function on the list \<open>vals a ! i ! j\<close>. xarray addresses dimensions by name, so the
    order of storage is not observable.
  \<^item> Latitude and longitude coordinates are numbers (\<open>real\<close>), never NaN.
  \<^item> Whole-array operations of xarray and pandas (\<open>where\<close>, \<open>isel\<close>, \<open>groupby\<close>,
    \<open>rolling\<close>, \<open>shift\<close>, \<open>fillna\<close>, \<open>quantile\<close>, \<open>mean\<close>) are modelled by what
    they compute for each cell; the exceptions they raise on the inputs considered
    (an index out of range, a window that is not positive, a rolling window longer than
    a chunked record, grouping an empty axis) are values of type \<open>error\<close>.
  \<^item> Printing is omitted.
\<close>

subsection \<open>Values, errors and coordinates\<close>

type_synonym float = "real option"

datatype error = KeyError string | ValueError string | IndexError string | ZeroDivisionError

definition isnan :: "float \<Rightarrow> bool" where
  "isnan x = (x = None)"

text \<open>\<open>x > y\<close> on floats: false as soon as one side is NaN.\<close>

definition gt_float :: "float \<Rightarrow> float \<Rightarrow> bool" where
  "gt_float x y = (case x of None \<Rightarrow> False
                   | Some a \<Rightarrow> (case y of None \<Rightarrow> False | Some b \<Rightarrow> a > b))"

fun dropna :: "'a option list \<Rightarrow> 'a list" where
  "dropna [] = []"
| "dropna (None # xs) = dropna xs"
| "dropna (Some x # xs) = x # dropna xs"

record timestamp =
  year :: int
  month :: nat
  day :: nat

definition is_leap_year :: "int \<Rightarrow> bool" where
  "is_leap_year y = (y mod 4 = 0 \<and> (y mod 100 \<noteq> 0 \<or> y mod 400 = 0))"

definition days_in_month :: "int \<Rightarrow> nat \<Rightarrow> nat" where
  "days_in_month y m =
     (if m = 2 then (if is_leap_year y then 29 else 28)
      else if m = 4 \<or> m = 6 \<or> m = 9 \<or> m = 11 then 30 else 31)"

text \<open>pandas' \<open>dayofyear\<close>: the ordinal of the date within its own year, 1 for 1 January.\<close>

definition dayofyear :: "timestamp \<Rightarrow> nat" where
  "dayofyear ts = sum_list (map (days_in_month (year ts)) [1..<month ts]) + day ts"

record ('c, 'a) data_array =
  dim0 :: "'c list"
  latitude :: "real list"
  longitude :: "real list"
  vals :: "'a list list list"

text \<open>The shape of the values agrees with the coordinates.\<close>

definition wf_array :: "('c, 'a) data_array \<Rightarrow> bool" where
  "wf_array a =
     (length (vals a) = length (latitude a) \<and>
      list_all (\<lambda>row. length row = length (longitude a) \<and>
                       list_all (\<lambda>s. length s = length (dim0 a)) row) (vals a))"

definition wf_mask :: "('c, 'a) data_array \<Rightarrow> bool list list \<Rightarrow> bool" where
  "wf_mask a m =
     (length m = length (latitude a) \<and> list_all (\<lambda>row. length row = length (longitude a)) m)"

text \<open>A dataset: shared coordinates and named variables with dimensions
  \<open>(time, latitude, longitude)\<close>.\<close>

record dataset =
  ds_time :: "timestamp list"
  ds_latitude :: "real list"
  ds_longitude :: "real list"
  data_vars :: "string \<rightharpoonup> float list list list"

definition wf_var :: "dataset \<Rightarrow> 'a list list list \<Rightarrow> bool" where
  "wf_var ds v =
     (length v = length (ds_latitude ds) \<and>
      list_all (\<lambda>row. length row = length (ds_longitude ds) \<and>
                       list_all (\<lambda>s. length s = length (ds_time ds)) row) v)"

subsection \<open>Data loading\<close>

text \<open>\<open>a.isel(time=0)\<close>: the slice at the first index of the leading dimension; numpy
  raises IndexError when that dimension is empty.\<close>

definition isel_first :: "'c list \<Rightarrow> 'a list list list \<Rightarrow> error + 'a list list" where
  "isel_first coord v =
     (if coord = [] then Inl (IndexError ''index 0 is out of bounds for axis 0 with size 0'')
      else Inr (map (map hd) v))"

text \<open>\<open>a.where(mask)\<close> for a two-dimensional mask broadcast along the leading dimension.\<close>

definition where_mask :: "float list list list \<Rightarrow> bool list list \<Rightarrow> float list list list" where
  "where_mask v mask2d = map2 (map2 (\<lambda>s m. map (\<lambda>x. if m then x else None) s)) v mask2d"

definition quoted :: "string \<Rightarrow> string" where
  "quoted s = [CHR 0x27] @ s @ [CHR 0x27]"

definition load_temperature_data :: "dataset \<Rightarrow> error + (timestamp, float) data_array" where
  "load_temperature_data ds =
     (case data_vars ds ''temperature'' of
        None \<Rightarrow> Inl (KeyError (''Dataset missing variable '' @ quoted ''temperature''))
      | Some temperature \<Rightarrow>
          (case data_vars ds ''land_mask'' of
             None \<Rightarrow> Inl (KeyError (''Dataset missing variable '' @ quoted ''land_mask''))
           | Some lm \<Rightarrow>
               (case isel_first (ds_time ds) (map (map (map (\<lambda>x. gt_float x (Some 0)))) lm) of
                  Inl e \<Rightarrow> Inl e
                | Inr land_mask \<Rightarrow>
                    Inr \<lparr> dim0 = ds_time ds, latitude = ds_latitude ds,
                          longitude = ds_longitude ds,
                          vals = where_mask temperature land_mask \<rparr>)))"

subsection \<open>Region masks\<close>

text \<open>\<open>xr.broadcast(base, m)[1]\<close> for a mask \<open>m\<close> along longitude: one copy of \<open>m\<close> for
  each latitude row of \<open>base\<close>.\<close>

definition broadcast_lon :: "'a list list \<Rightarrow> bool list \<Rightarrow> bool list list" where
  "broadcast_lon base m = map (\<lambda>_. m) base"

definition and2d :: "bool list list \<Rightarrow> bool list list \<Rightarrow> bool list list" where
  "and2d a b = map2 (map2 (\<and>)) a b"

definition build_region_masks ::
  "(timestamp, float) data_array \<Rightarrow> string \<Rightarrow> error + (string \<times> bool list list) list" where
  "build_region_masks temp_data region =
     (case isel_first (dim0 temp_data) (vals temp_data) of
        Inl e \<Rightarrow> Inl e
      | Inr first \<Rightarrow>
          (let valid_land = map (map (\<lambda>x. \<not> isnan x)) first in
           if region = ''us'' then
             (let lon = longitude temp_data;
                  west_mask = map (\<lambda>l. l < - 105) lon;
                  central_east_mask = map (\<lambda>l. l \<ge> - 105) lon;
                  us48_mask = map (\<lambda>_. True) west_mask;
                  west_mask2d = and2d (broadcast_lon first west_mask) valid_land;
                  central_east_mask2d = and2d (broadcast_lon first central_east_mask) valid_land;
                  us48_mask2d = and2d (broadcast_lon first us48_mask) valid_land
              in Inr [(''West'', west_mask2d), (''Central-East'', central_east_mask2d),
                      (''US48'', us48_mask2d)])
           else if region = ''nh'' then Inr [(''NH'', valid_land)]
           else Inl (ValueError (''Unknown region. Use '' @ quoted ''us'' @ '' or '' @ quoted ''nh'' @ ''.''))))"

subsection \<open>Thresholds\<close>

text \<open>The values of one group of \<open>groupby\<close>: the entries of the series \<open>s\<close> at the
  positions whose key is \<open>d\<close>.\<close>

definition group_values :: "'k list \<Rightarrow> 'a list \<Rightarrow> 'k \<Rightarrow> 'a list" where
  "group_values keys s d = map snd (filter (\<lambda>kx. fst kx = d) (zip keys s))"

text \<open>numpy's default (\<open>linear\<close>) quantile of a sorted, non-empty sample: the virtual index
  \<open>(n - 1) * q\<close>, its floor, the next index clipped to the last one, and the linear
  interpolation between the two order statistics.\<close>

definition quantile_sorted :: "real \<Rightarrow> real list \<Rightarrow> real" where
  "quantile_sorted q xs =
     (let n = length xs;
          virtual_index = real (n - 1) * q;
          previous = nat \<lfloor>virtual_index\<rfloor>;
          nxt = min (previous + 1) (n - 1);
          gamma = virtual_index - real previous
      in xs ! previous + gamma * (xs ! nxt - xs ! previous))"

text \<open>\<open>quantile(q, skipna=True)\<close>: NaN entries are removed first; a sample with no number
  left gives NaN.\<close>

definition nanquantile :: "real \<Rightarrow> float list \<Rightarrow> float" where
  "nanquantile q vs =
     (let xs = sort (dropna vs) in if xs = [] then None else Some (quantile_sorted q xs))"

definition compute_daily_90th_thresholds ::
  "(timestamp, float) data_array \<Rightarrow> error + (nat, float) data_array" where
  "compute_daily_90th_thresholds may_sep =
     (if dim0 may_sep = [] then Inl (ValueError ''Failed to group data.'')
      else
        (let keys = map dayofyear (dim0 may_sep);
             groups = sort (remdups keys)
         in Inr \<lparr> dim0 = groups, latitude = latitude may_sep, longitude = longitude may_sep,
                  vals = map (map (\<lambda>s. map (\<lambda>d. nanquantile (9 / 10) (group_values keys s d))
                                          groups))
                             (vals may_sep) \<rparr>))"

subsection \<open>Heatwave days\<close>

text \<open>The threshold of day-of-year \<open>d\<close> in one cell; a day-of-year absent from the
  threshold field has no threshold (NaN after xarray's alignment).\<close>

definition threshold_at :: "nat list \<Rightarrow> float list \<Rightarrow> nat \<Rightarrow> float" where
  "threshold_at doys th d = (case map_of (zip doys th) d of None \<Rightarrow> None | Some v \<Rightarrow> v)"

text \<open>\<open>may_sep.groupby("time.dayofyear") > thresholds\<close>, for one cell.\<close>

definition exceed_1d :: "timestamp list \<Rightarrow> nat list \<Rightarrow> float list \<Rightarrow> float list \<Rightarrow> bool list" where
  "exceed_1d tms doys s th =
     map2 (\<lambda>ts x. gt_float x (threshold_at doys th (dayofyear ts))) tms s"

definition exceedance ::
  "(timestamp, float) data_array \<Rightarrow> (nat, float) data_array \<Rightarrow> bool list list list" where
  "exceedance may_sep thresholds =
     map2 (map2 (exceed_1d (dim0 may_sep) (dim0 thresholds))) (vals may_sep) (vals thresholds)"

text \<open>\<open>rolling(time=window, min_periods=min_periods).sum()\<close> on a boolean series: at
  position \<open>t\<close> the window holds the entries of the record at positions \<open>t - window + 1\<close>
  to \<open>t\<close>; the sum is NaN when fewer than \<open>min_periods\<close> entries are there.\<close>

definition rolling_sum :: "nat \<Rightarrow> nat \<Rightarrow> bool list \<Rightarrow> nat option list" where
  "rolling_sum window min_periods xs =
     map (\<lambda>t. let win = drop (t + 1 - window) (take (t + 1) xs)
              in if min_periods \<le> length win then Some (length (filter id win)) else None)
         [0..<length xs]"

text \<open>\<open>shift(time=k)\<close>: the entry at \<open>t\<close> comes from position \<open>t - k\<close>, NaN when that
  position is outside the record. \<open>fillna(v)\<close> replaces NaN by \<open>v\<close>.\<close>

definition shift_time :: "int \<Rightarrow> 'a list \<Rightarrow> 'a option list" where
  "shift_time k xs =
     map (\<lambda>t. let s = int t - k
              in if 0 \<le> s \<and> s < int (length xs) then Some (xs ! nat s) else None)
         [0..<length xs]"

definition fillna :: "'a \<Rightarrow> 'a option list \<Rightarrow> 'a list" where
  "fillna v xs = map (\<lambda>x. case x of None \<Rightarrow> v | Some y \<Rightarrow> y) xs"

definition end_of_runs_1d :: "nat \<Rightarrow> bool list \<Rightarrow> bool list" where
  "end_of_runs_1d window exceed =
     map (\<lambda>s. s = Some window) (rolling_sum window window exceed)"

text \<open>The loop \<open>for shift in range(window): heatwave = heatwave | ...\<close>, for one cell,
  started from \<open>zeros_like\<close>.\<close>

definition mark_runs_1d :: "nat \<Rightarrow> bool list \<Rightarrow> bool list" where
  "mark_runs_1d window end_of_runs =
     fold (\<lambda>shift heatwave.
             map2 (\<or>) heatwave (fillna False (shift_time (- int shift) end_of_runs)))
          [0..<window] (map (\<lambda>_. False) end_of_runs)"

definition heatwave_1d :: "nat \<Rightarrow> bool list \<Rightarrow> bool list" where
  "heatwave_1d window exceed = mark_runs_1d window (end_of_runs_1d window exceed)"

definition end_of_runs :: "nat \<Rightarrow> bool list list list \<Rightarrow> bool list list list" where
  "end_of_runs window exceed = map (map (end_of_runs_1d window)) exceed"

text \<open>The exceedance field is put in one chunk along \<open>time\<close> (\<open>exceed.chunk\<close>) before the
  rolling sum, so the rolling sum runs on a chunked array: \<open>rolling\<close> rejects a window
  that is not positive with ValueError, and the sum over a window longer than the record
  raises ZeroDivisionError.\<close>

definition identify_heatwave_days ::
  "(timestamp, float) data_array \<Rightarrow> (nat, float) data_array \<Rightarrow> int \<Rightarrow>
   error + (timestamp, bool) data_array" where
  "identify_heatwave_days may_sep thresholds min_run_length =
     (if dim0 may_sep = [] then Inl (ValueError ''Failed to group data.'')
      else
        (let exceed = exceedance may_sep thresholds;
             n_time = length (dim0 may_sep);
             window = min_run_length
         in if window \<le> 0 then Inl (ValueError ''window must be > 0'')
            else if n_time < nat window then Inl ZeroDivisionError
            else Inr \<lparr> dim0 = dim0 may_sep, latitude = latitude may_sep,
                       longitude = longitude may_sep,
                       vals = map (map (mark_runs_1d (nat window)))
                                  (end_of_runs (nat window) exceed) \<rparr>))"

subsection \<open>Annual aggregation\<close>

text \<open>\<open>groupby("time.year").sum(dim="time")\<close> for one cell: the number of flagged days in
  each year of the record.\<close>

definition annual_counts_1d :: "timestamp list \<Rightarrow> int list \<Rightarrow> bool list \<Rightarrow> nat list" where
  "annual_counts_1d tms years s =
     map (\<lambda>y. length (filter id (group_values (map year tms) s y))) years"

text \<open>\<open>mean(skipna=True)\<close>: the mean of the entries that are numbers, NaN when there is
  none.\<close>

definition nanmean :: "float list \<Rightarrow> float" where
  "nanmean xs =
     (let v = dropna xs in if v = [] then None else Some (sum_list v / real (length v)))"

text \<open>\<open>annual_counts_cell.where(mask2d).mean(dim=("latitude", "longitude"), skipna=True)\<close>:
  one value for each year index.\<close>

definition per_station_mean :: "nat \<Rightarrow> nat list list list \<Rightarrow> bool list list \<Rightarrow> float list" where
  "per_station_mean n_years counts mask2d =
     (let masked = map2 (map2 (\<lambda>c m. map (\<lambda>x. if m then Some (real x) else None) c))
                        counts mask2d
      in map (\<lambda>k. nanmean (concat (map (map (\<lambda>c. c ! k)) masked))) [0..<n_years])"

definition aggregate_annual_per_region ::
  "(timestamp, bool) data_array \<Rightarrow> (string \<times> bool list list) list \<Rightarrow>
   error + (int list \<times> (string \<times> float list) list)" where
  "aggregate_annual_per_region heatwave_days region_masks =
     (if dim0 heatwave_days = [] then Inl (ValueError ''Failed to group data.'')
      else
        (let years = sort (remdups (map year (dim0 heatwave_days)));
             annual_counts_cell =
               map (map (annual_counts_1d (dim0 heatwave_days) years)) (vals heatwave_days)
         in Inr (years,
                 map (\<lambda>(region, mask2d).
                        (region, per_station_mean (length years) annual_counts_cell mask2d))
                     region_masks)))"

subsection \<open>Trailing average\<close>

text \<open>pandas' \<open>rolling(window, min_periods).mean()\<close>: at position \<open>i\<close> the window holds the
  entries at positions \<open>i - window + 1\<close> to \<open>i\<close> that exist; the mean is taken over its
  entries that are numbers, and is NaN when fewer than \<open>min_periods\<close> of them are.\<close>

definition rolling_mean :: "nat \<Rightarrow> nat \<Rightarrow> float list \<Rightarrow> float list" where
  "rolling_mean window min_periods xs =
     map (\<lambda>i. let obs = dropna (drop (i + 1 - window) (take (i + 1) xs))
              in if min_periods \<le> length obs
                 then Some (sum_list obs / real (length obs)) else None)
         [0..<length xs]"

text \<open>pandas rejects a negative window, and a window smaller than \<open>min_periods = 1\<close>.\<close>

definition trailing_average :: "float list \<Rightarrow> int \<Rightarrow> error + float list" where
  "trailing_average values window =
     (if window < 0 then Inl (ValueError ''window must be an integer 0 or greater'')
      else if window < 1 then Inl (ValueError ''min_periods 1 must be <= window 0'')
      else Inr (rolling_mean (nat window) 1 values))"

subsection \<open>Notions of the specification\<close>

text \<open>Position \<open>t\<close> of the boolean series \<open>e\<close> lies inside a run of at least \<open>n\<close>
  consecutive positions of the record that are all true: positions \<open>a\<close> to \<open>b\<close>.\<close>

definition in_run :: "nat \<Rightarrow> bool list \<Rightarrow> nat \<Rightarrow> bool" where
  "in_run n e t =
     (\<exists>a b. a \<le> t \<and> t \<le> b \<and> b < length e \<and> n \<le> b + 1 - a \<and>
            (\<forall>i. a \<le> i \<and> i \<le> b \<longrightarrow> e ! i))"

text \<open>The comparison "greater than or equal" on floats, false when a side is NaN.\<close>

definition ge_float :: "float \<Rightarrow> float \<Rightarrow> bool" where
  "ge_float x y = (case x of None \<Rightarrow> False
                   | Some a \<Rightarrow> (case y of None \<Rightarrow> False | Some b \<Rightarrow> a \<ge> b))"

text \<open>The linear-interpolation sample quantile of a sorted, non-empty sample
  \<open>x\<^sub>1 \<le> \<dots> \<le> x\<^sub>n\<close> (Hyndman and Fan's type 7): with \<open>h = (n - 1) p + 1\<close> and
  \<open>r = \<lfloor>h\<rfloor>\<close>, the value \<open>x\<^sub>r + (h - r) (x\<^sub>r\<^sub>+\<^sub>1 - x\<^sub>r)\<close>, and \<open>x\<^sub>n\<close> when \<open>r = n\<close>.
  The order statistic \<open>x\<^sub>r\<close> is \<open>xs ! (r - 1)\<close>.\<close>

definition linear_interpolation_quantile :: "real \<Rightarrow> real list \<Rightarrow> real" where
  "linear_interpolation_quantile p xs =
     (let n = length xs;
          h = real (n - 1) * p + 1;
          r = nat \<lfloor>h\<rfloor>
      in if n \<le> r then xs ! (n - 1)
         else xs ! (r - 1) + (h - real r) * (xs ! r - xs ! (r - 1)))"

subsection \<open>Example inputs\<close>

text \<open>One cell, twelve days from 1 May 2001: two days at 20 degrees, seven at 31, three at
  20, against a threshold of 30 on every day.\<close>

definition example_days :: "timestamp list" where
  "example_days = map (\<lambda>d. \<lparr> year = 2001, month = 5, day = d \<rparr>) [1..<13]"

definition example_may_sep :: "(timestamp, float) data_array" where
  "example_may_sep =
     \<lparr> dim0 = example_days, latitude = [40], longitude = [- 100],
       vals = [[replicate 2 (Some 20) @ replicate 7 (Some 31) @ replicate 3 (Some 20)]] \<rparr>"

definition example_thresholds :: "(nat, float) data_array" where
  "example_thresholds =
     \<lparr> dim0 = map dayofyear example_days, latitude = [40], longitude = [- 100],
       vals = [[replicate 12 (Some 30)]] \<rparr>"

text \<open>One cell and one day, at 30 degrees; its threshold field, as
  \<open>compute_daily_90th_thresholds\<close> returns it, is 30 as well.\<close>

definition tie_may_sep :: "(timestamp, float) data_array" where
  "tie_may_sep =
     \<lparr> dim0 = [\<lparr> year = 2001, month = 5, day = 1 \<rparr>], latitude = [40], longitude = [- 100],
       vals = [[[Some 30]]] \<rparr>"

definition tie_thresholds :: "(nat, float) data_array" where
  "tie_thresholds = \<lparr> dim0 = [121], latitude = [40], longitude = [- 100], vals = [[[Some 30]]] \<rparr>"

text \<open>A dataset of one latitude row, three longitudes and two days, and a second one
  that differs from it only at the second day.\<close>

definition example_temperature :: "float list list list" where
  "example_temperature = [[[Some 25, Some 26], [Some 20, None], [Some 18, Some 19]]]"

definition example_land_mask :: "float list list list" where
  "example_land_mask = [[[Some 1, Some 1], [Some 1, Some 0], [Some 0, Some 1]]]"

definition example_ds :: dataset where
  "example_ds =
     \<lparr> ds_time = [\<lparr> year = 2001, month = 5, day = 1 \<rparr>, \<lparr> year = 2001, month = 5, day = 2 \<rparr>],
       ds_latitude = [40], ds_longitude = [- 110, - 100, - 90],
       data_vars = [''temperature'' \<mapsto> example_temperature,
                    ''land_mask'' \<mapsto> example_land_mask] \<rparr>"

definition later_temperature :: "float list list list" where
  "later_temperature = [[[Some 25, None], [Some 20, Some 30], [Some 18, None]]]"

definition later_land_mask :: "float list list list" where
  "later_land_mask = [[[Some 1, Some 0], [Some 1, Some 1], [Some 0, Some 0]]]"

definition example_ds_later :: dataset where
  "example_ds_later =
     \<lparr> ds_time = [\<lparr> year = 2001, month = 5, day = 1 \<rparr>, \<lparr> year = 2001, month = 5, day = 2 \<rparr>],
       ds_latitude = [40], ds_longitude = [- 110, - 100, - 90],
       data_vars = [''temperature'' \<mapsto> later_temperature,
                    ''land_mask'' \<mapsto> later_land_mask] \<rparr>"

text \<open>The land-only field that \<open>load_temperature_data\<close> returns for the first dataset.\<close>

definition example_temp_land :: "(timestamp, float) data_array" where
  "example_temp_land =
     \<lparr> dim0 = [\<lparr> year = 2001, month = 5, day = 1 \<rparr>, \<lparr> year = 2001, month = 5, day = 2 \<rparr>],
       latitude = [40], longitude = [- 110, - 100, - 90],
       vals = [[[Some 25, Some 26], [Some 20, None], [None, None]]] \<rparr>"

text \<open>The first time step of the loaded field, as a function of the first time step of
  the two variables.\<close>

definition first_slice :: "dataset \<Rightarrow> float list list list \<Rightarrow> float list list list \<Rightarrow> float list list" where
  "first_slice ds temp lm =
     map (\<lambda>i. map (\<lambda>j. if gt_float (lm ! i ! j ! 0) (Some 0) then temp ! i ! j ! 0 else None)
                 [0..<length (ds_longitude ds)])
         [0..<length (ds_latitude ds)]"

text \<open>A heatwave field of three days in two years on the same grid, and region masks
  of which \<open>West\<close> selects no cell.\<close>

definition example_heatwave :: "(timestamp, bool) data_array" where
  "example_heatwave =
     \<lparr> dim0 = [\<lparr> year = 2001, month = 5, day = 1 \<rparr>, \<lparr> year = 2001, month = 5, day = 2 \<rparr>,
               \<lparr> year = 2002, month = 5, day = 1 \<rparr>],
       latitude = [40], longitude = [- 110, - 100, - 90],
       vals = [[[True, True, False], [True, False, True], [False, False, False]]] \<rparr>"

definition example_masks :: "(string \<times> bool list list) list" where
  "example_masks = [(''West'', [[False, False, False]]), (''Central-East'', [[False, True, True]]),
                    (''US48'', [[True, True, True]])]"

text \<open>Two cells and the first of May of three years: the first cell has a missing
  observation in the second year, the second cell has no observation at all.\<close>

definition gappy_may_sep :: "(timestamp, float) data_array" where
  "gappy_may_sep =
     \<lparr> dim0 = [\<lparr> year = 2001, month = 5, day = 1 \<rparr>, \<lparr> year = 2002, month = 5, day = 1 \<rparr>,
               \<lparr> year = 2003, month = 5, day = 1 \<rparr>],
       latitude = [40], longitude = [- 100, - 90],
       vals = [[[Some 20, None, Some 10], [None, None, None]]] \<rparr>"

section \<open>Properties\<close>

subsection \<open>Run detection on one series\<close>

lemma length_rolling_sum: "length (rolling_sum w m xs) = length xs"
  by (simp add: rolling_sum_def)

lemma length_end_of_runs_1d: "length (end_of_runs_1d w e) = length e"
  by (simp add: end_of_runs_1d_def length_rolling_sum)

lemma all_true_filter: "(length (filter id win) = length win) = (\<forall>x\<in>set win. x)"
  by (metis filter_id_conv id_apply length_filter_less less_irrefl_nat)

lemma end_of_runs_1d_nth:
  assumes "t < length e" "1 \<le> w"
  shows "end_of_runs_1d w e ! t = (w \<le> t + 1 \<and> (\<forall>i. t + 1 - w \<le> i \<and> i \<le> t \<longrightarrow> e ! i))"
proof -
  let ?win = "drop (t + 1 - w) (take (t + 1) e)"
  have len: "length ?win = min (t + 1) w" using assms by auto
  have mem: "(\<forall>x\<in>set ?win. x) = (\<forall>i. t + 1 - w \<le> i \<and> i \<le> t \<longrightarrow> e ! i)"
  proof
    assume a: "\<forall>x\<in>set ?win. x"
    show "\<forall>i. t + 1 - w \<le> i \<and> i \<le> t \<longrightarrow> e ! i"
    proof (intro allI impI)
      fix i assume i: "t + 1 - w \<le> i \<and> i \<le> t"
      then have "i - (t + 1 - w) < length ?win" using assms by auto
      then have "?win ! (i - (t + 1 - w)) \<in> set ?win" by (rule nth_mem)
      moreover have "?win ! (i - (t + 1 - w)) = e ! i" using i assms by simp
      ultimately show "e ! i" using a by auto
    qed
  next
    assume b: "\<forall>i. t + 1 - w \<le> i \<and> i \<le> t \<longrightarrow> e ! i"
    show "\<forall>x\<in>set ?win. x"
    proof
      fix x assume "x \<in> set ?win"
      then obtain k where k: "k < length ?win" "?win ! k = x" by (auto simp: in_set_conv_nth)
      have "?win ! k = e ! (t + 1 - w + k)" using k(1) assms by simp
      moreover have "t + 1 - w + k \<le> t" using k(1) assms by auto
      ultimately show x using b k(2) by auto
    qed
  qed
  have "end_of_runs_1d w e ! t =
          ((if w \<le> length ?win then Some (length (filter id ?win)) else None) = Some w)"
    using assms(1) by (simp add: end_of_runs_1d_def rolling_sum_def Let_def)
  also have "\<dots> = (w \<le> t + 1 \<and> length (filter id ?win) = length ?win)"
    using len assms(2) by (auto simp: min_def)
  also have "\<dots> = (w \<le> t + 1 \<and> (\<forall>i. t + 1 - w \<le> i \<and> i \<le> t \<longrightarrow> e ! i))"
    by (simp only: all_true_filter mem)
  finally show ?thesis .
qed

lemma shift_fill_nth:
  "t < length xs \<Longrightarrow>
   fillna False (shift_time (- int s) xs) ! t = (t + s < length xs \<and> xs ! (t + s))"
  by (auto simp: fillna_def shift_time_def Let_def nat_add_distrib)

lemma length_shift_fill: "length (fillna v (shift_time k xs)) = length xs"
  by (simp add: fillna_def shift_time_def)

lemma fold_or_shift:
  "length hw = length xs \<Longrightarrow>
   length (fold (\<lambda>shift heatwave. map2 (\<or>) heatwave (fillna False (shift_time (- int shift) xs))) ss hw) = length xs
   \<and> (\<forall>t < length xs.
        fold (\<lambda>shift heatwave. map2 (\<or>) heatwave (fillna False (shift_time (- int shift) xs))) ss hw ! t
        = (hw ! t \<or> (\<exists>s\<in>set ss. t + s < length xs \<and> xs ! (t + s))))"
proof (induction ss arbitrary: hw)
  case Nil
  then show ?case by simp
next
  case (Cons s ss)
  let ?hw = "map2 (\<or>) hw (fillna False (shift_time (- int s) xs))"
  have l: "length ?hw = length xs" using Cons.prems by (simp add: length_shift_fill)
  have n: "\<forall>t < length xs. ?hw ! t = (hw ! t \<or> (t + s < length xs \<and> xs ! (t + s)))"
    using Cons.prems by (simp add: length_shift_fill shift_fill_nth)
  from Cons.IH[OF l] n show ?case by auto
qed

lemma length_mark_runs_1d: "length (mark_runs_1d w xs) = length xs"
  using fold_or_shift[of "map (\<lambda>_. False) xs" xs "[0..<w]"] by (simp add: mark_runs_1d_def)

lemma mark_runs_1d_nth:
  "t < length xs \<Longrightarrow> mark_runs_1d w xs ! t = (\<exists>s<w. t + s < length xs \<and> xs ! (t + s))"
  using fold_or_shift[of "map (\<lambda>_. False) xs" xs "[0..<w]"] by (auto simp add: mark_runs_1d_def)

lemma length_heatwave_1d: "length (heatwave_1d w e) = length e"
  by (simp add: heatwave_1d_def length_mark_runs_1d length_end_of_runs_1d)

lemma heatwave_1d_run_end:
  assumes "t < length e" "1 \<le> w"
  shows "heatwave_1d w e ! t =
     (\<exists>s<w. t + s < length e \<and> w \<le> t + s + 1 \<and> (\<forall>i. t + s + 1 - w \<le> i \<and> i \<le> t + s \<longrightarrow> e ! i))"
proof -
  have "heatwave_1d w e ! t = (\<exists>s<w. t + s < length e \<and> end_of_runs_1d w e ! (t + s))"
    using assms(1) by (simp add: heatwave_1d_def mark_runs_1d_nth length_end_of_runs_1d)
  also have "\<dots> = (\<exists>s<w. t + s < length e \<and> w \<le> t + s + 1 \<and> (\<forall>i. t + s + 1 - w \<le> i \<and> i \<le> t + s \<longrightarrow> e ! i))"
    using assms(2) end_of_runs_1d_nth[of _ e w] by (metis (no_types, lifting) )
  finally show ?thesis .
qed

lemma heatwave_1d_in_run:
  assumes "t < length e" "1 \<le> w"
  shows "heatwave_1d w e ! t = in_run w e t"
proof
  assume "heatwave_1d w e ! t"
  then obtain s where s: "s < w" "t + s < length e" "w \<le> t + s + 1"
      "\<forall>i. t + s + 1 - w \<le> i \<and> i \<le> t + s \<longrightarrow> e ! i"
    using heatwave_1d_run_end[OF assms] by auto
  show "in_run w e t" unfolding in_run_def
    apply (rule exI[of _ "t + s + 1 - w"], rule exI[of _ "t + s"])
    using s by auto
next
  assume "in_run w e t"
  then obtain a b where ab: "a \<le> t" "t \<le> b" "b < length e" "w \<le> b + 1 - a"
      "\<forall>i. a \<le> i \<and> i \<le> b \<longrightarrow> e ! i"
    unfolding in_run_def by auto
  define s where "s = max t (a + w - 1) - t"
  have "s < w" "t + s < length e" "w \<le> t + s + 1" "a \<le> t + s + 1 - w" "t + s \<le> b"
    using ab assms(2) by (auto simp: s_def max_def)
  then have "s < w \<and> t + s < length e \<and> w \<le> t + s + 1 \<and> (\<forall>i. t + s + 1 - w \<le> i \<and> i \<le> t + s \<longrightarrow> e ! i)"
    using ab(5) by auto
  then show "heatwave_1d w e ! t" using heatwave_1d_run_end[OF assms] by blast
qed

lemma block_nth:
  "k < a + m + b \<Longrightarrow>
   (replicate a False @ replicate m True @ replicate b False) ! k = (a \<le> k \<and> k < a + m)"
  by (auto simp: nth_append)

lemma in_run_block:
  assumes "t < a + m + b"
  shows "in_run w (replicate a False @ replicate m True @ replicate b False) t
         = (w \<le> m \<and> a \<le> t \<and> t < a + m)"
proof
  let ?e = "replicate a False @ replicate m True @ replicate b False"
  assume "in_run w ?e t"
  then obtain a' b' where r: "a' \<le> t" "t \<le> b'" "b' < length ?e" "w \<le> b' + 1 - a'"
      "\<forall>i. a' \<le> i \<and> i \<le> b' \<longrightarrow> ?e ! i"
    unfolding in_run_def by blast
  have "?e ! a'" "?e ! b'" using r by auto
  moreover have "a' < a + m + b" "b' < a + m + b" using r by auto
  ultimately have "a \<le> a'" "b' < a + m" by (simp_all add: block_nth)
  then show "w \<le> m \<and> a \<le> t \<and> t < a + m" using r by linarith
next
  let ?e = "replicate a False @ replicate m True @ replicate b False"
  assume h: "w \<le> m \<and> a \<le> t \<and> t < a + m"
  then have m: "0 < m" by auto
  have "\<forall>i. a \<le> i \<and> i \<le> a + m - 1 \<longrightarrow> ?e ! i"
    using m by (auto simp: block_nth)
  moreover have "a \<le> t" "t \<le> a + m - 1" "a + m - 1 < length ?e" "w \<le> a + m - 1 + 1 - a"
    using h m by auto
  ultimately show "in_run w ?e t" unfolding in_run_def by blast
qed

lemma heatwave_1d_block:
  assumes "1 \<le> w"
  shows "heatwave_1d w (replicate a False @ replicate m True @ replicate b False) =
         (if w \<le> m then replicate a False @ replicate m True @ replicate b False
          else replicate (a + m + b) False)"
proof (rule nth_equalityI)
  show "length (heatwave_1d w (replicate a False @ replicate m True @ replicate b False)) =
        length (if w \<le> m then replicate a False @ replicate m True @ replicate b False
                else replicate (a + m + b) False)"
    by (simp add: length_heatwave_1d)
next
  fix t
  assume "t < length (heatwave_1d w (replicate a False @ replicate m True @ replicate b False))"
  then have t: "t < a + m + b" by (simp add: length_heatwave_1d)
  then have "heatwave_1d w (replicate a False @ replicate m True @ replicate b False) ! t
             = (w \<le> m \<and> a \<le> t \<and> t < a + m)"
    using heatwave_1d_in_run[OF _ assms] in_run_block[OF t] by simp
  then show "heatwave_1d w (replicate a False @ replicate m True @ replicate b False) ! t =
      (if w \<le> m then replicate a False @ replicate m True @ replicate b False
       else replicate (a + m + b) False) ! t"
    using t by (simp add: block_nth)
qed

subsection \<open>Heatwave days on the field\<close>

lemma identify_heatwave_days_Inr:
  assumes "1 \<le> N" and "nat N \<le> length (dim0 may_sep)"
  shows "identify_heatwave_days may_sep thresholds N =
           Inr \<lparr> dim0 = dim0 may_sep, latitude = latitude may_sep,
                 longitude = longitude may_sep,
                 vals = map (map (heatwave_1d (nat N))) (exceedance may_sep thresholds) \<rparr>"
proof -
  have "dim0 may_sep \<noteq> []" using assms by auto
  then show ?thesis
    using assms
    by (simp add: identify_heatwave_days_def end_of_runs_def heatwave_1d_def Let_def comp_def)
qed

lemma identify_heatwave_days_returns:
  assumes "identify_heatwave_days may_sep thresholds N = Inr hw"
  shows "1 \<le> N" and "nat N \<le> length (dim0 may_sep)"
  using assms by (auto simp: identify_heatwave_days_def Let_def split: if_splits)

lemma identify_heatwave_days_short_record:
  assumes "1 \<le> N" and "dim0 may_sep \<noteq> []" and "length (dim0 may_sep) < nat N"
  shows "identify_heatwave_days may_sep thresholds N = Inl ZeroDivisionError"
  using assms by (simp add: identify_heatwave_days_def Let_def)

lemma example_exceedance:
  "exceedance example_may_sep example_thresholds =
     [[replicate 2 False @ replicate 7 True @ replicate 3 False]]"
  by code_simp

lemma shape_heatwave:
  "length (map (map (heatwave_1d w)) ex) = length ex"
  "i < length ex \<Longrightarrow> length (map (map (heatwave_1d w)) ex ! i) = length (ex ! i)"
  "i < length ex \<Longrightarrow> j < length (ex ! i) \<Longrightarrow>
     map (map (heatwave_1d w)) ex ! i ! j = heatwave_1d w (ex ! i ! j)"
  by simp_all

text \<open>
  Claim C1. \<open>identify_heatwave_days\<close> returns a field for every run length \<open>N \<ge> 1\<close> that
  is not longer than the record (for a longer \<open>N\<close> the rolling sum raises
  ZeroDivisionError, and no day of the record can lie in a run of \<open>N\<close> days). Whenever it
  returns, the field has the shape of the exceedance field, and in every cell a day is
  flagged exactly when it lies inside a run of at least \<open>N\<close> consecutive exceedance days
  of the record, where consecutive means adjacent positions along the time axis of the
  seasonal field. In particular, when the exceedance series of a cell is a block of \<open>m\<close>
  exceedance days between days without exceedance, the flagged days are exactly the
  block if \<open>N \<le> m\<close> (a block of 7 for \<open>N = 6\<close>) and no day is flagged otherwise (a
  block of 5 for \<open>N = 6\<close>).
\<close>

theorem heatwave_days_are_runs:
  "(1 \<le> N \<and> nat N \<le> length (dim0 may_sep) \<longrightarrow>
      (\<exists>hw. identify_heatwave_days may_sep thresholds N = Inr hw)) \<and>
   (1 \<le> N \<and> dim0 may_sep \<noteq> [] \<and> length (dim0 may_sep) < nat N \<longrightarrow>
      identify_heatwave_days may_sep thresholds N = Inl ZeroDivisionError) \<and>
   (\<forall>hw. identify_heatwave_days may_sep thresholds N = Inr hw \<longrightarrow>
     1 \<le> N \<and>
     length (vals hw) = length (exceedance may_sep thresholds) \<and>
     (\<forall>i<length (vals hw).
        length (vals hw ! i) = length (exceedance may_sep thresholds ! i) \<and>
        (\<forall>j<length (vals hw ! i).
           (let e = exceedance may_sep thresholds ! i ! j in
            length (vals hw ! i ! j) = length e \<and>
            (\<forall>t<length e.
               vals hw ! i ! j ! t =
                 (\<exists>a b. a \<le> t \<and> t \<le> b \<and> b < length e \<and> nat N \<le> b + 1 - a \<and>
                        (\<forall>k. a \<le> k \<and> k \<le> b \<longrightarrow> e ! k))) \<and>
            (\<forall>a m b. e = replicate a False @ replicate m True @ replicate b False \<longrightarrow>
               vals hw ! i ! j = (if nat N \<le> m then e else replicate (a + m + b) False))))))"
proof -
  have A: "1 \<le> N \<and> nat N \<le> length (dim0 may_sep) \<longrightarrow>
      (\<exists>hw. identify_heatwave_days may_sep thresholds N = Inr hw)"
    using identify_heatwave_days_Inr[of N may_sep thresholds] by blast
  have B: "1 \<le> N \<and> dim0 may_sep \<noteq> [] \<and> length (dim0 may_sep) < nat N \<longrightarrow>
      identify_heatwave_days may_sep thresholds N = Inl ZeroDivisionError"
    using identify_heatwave_days_short_record[of N may_sep thresholds] by blast
  have C: "\<forall>hw. identify_heatwave_days may_sep thresholds N = Inr hw \<longrightarrow>
     1 \<le> N \<and>
     length (vals hw) = length (exceedance may_sep thresholds) \<and>
     (\<forall>i<length (vals hw).
        length (vals hw ! i) = length (exceedance may_sep thresholds ! i) \<and>
        (\<forall>j<length (vals hw ! i).
           (let e = exceedance may_sep thresholds ! i ! j in
            length (vals hw ! i ! j) = length e \<and>
            (\<forall>t<length e.
               vals hw ! i ! j ! t =
                 (\<exists>a b. a \<le> t \<and> t \<le> b \<and> b < length e \<and> nat N \<le> b + 1 - a \<and>
                        (\<forall>k. a \<le> k \<and> k \<le> b \<longrightarrow> e ! k))) \<and>
            (\<forall>a m b. e = replicate a False @ replicate m True @ replicate b False \<longrightarrow>
               vals hw ! i ! j = (if nat N \<le> m then e else replicate (a + m + b) False)))))"
  proof (rule allI, rule impI)
    fix hw assume h: "identify_heatwave_days may_sep thresholds N = Inr hw"
    let ?ex = "exceedance may_sep thresholds"
    note n = identify_heatwave_days_returns[OF h]
    have w: "1 \<le> nat N" using n(1) by simp
    have "hw = \<lparr> dim0 = dim0 may_sep, latitude = latitude may_sep,
                  longitude = longitude may_sep,
                  vals = map (map (heatwave_1d (nat N))) ?ex \<rparr>"
      using h identify_heatwave_days_Inr[OF n, of thresholds] by simp
    then have v: "vals hw = map (map (heatwave_1d (nat N))) ?ex" by simp
    have cell: "length (heatwave_1d (nat N) e) = length e \<and>
              (\<forall>t<length e.
                 heatwave_1d (nat N) e ! t =
                   (\<exists>a b. a \<le> t \<and> t \<le> b \<and> b < length e \<and> nat N \<le> b + 1 - a \<and>
                          (\<forall>k. a \<le> k \<and> k \<le> b \<longrightarrow> e ! k))) \<and>
              (\<forall>a m b. e = replicate a False @ replicate m True @ replicate b False \<longrightarrow>
                 heatwave_1d (nat N) e = (if nat N \<le> m then e else replicate (a + m + b) False))" for e
      using heatwave_1d_in_run[OF _ w, of _ e] heatwave_1d_block[OF w]
      by (simp add: length_heatwave_1d in_run_def)
    have rest: "length (vals hw) = length ?ex \<and>
       (\<forall>i<length (vals hw).
          length (vals hw ! i) = length (?ex ! i) \<and>
          (\<forall>j<length (vals hw ! i).
             (let e = ?ex ! i ! j in
              length (vals hw ! i ! j) = length e \<and>
              (\<forall>t<length e.
                 vals hw ! i ! j ! t =
                   (\<exists>a b. a \<le> t \<and> t \<le> b \<and> b < length e \<and> nat N \<le> b + 1 - a \<and>
                          (\<forall>k. a \<le> k \<and> k \<le> b \<longrightarrow> e ! k))) \<and>
              (\<forall>a m b. e = replicate a False @ replicate m True @ replicate b False \<longrightarrow>
                 vals hw ! i ! j = (if nat N \<le> m then e else replicate (a + m + b) False)))))"
      apply (simp only: v Let_def)
      using cell by simp
    from n(1) rest
    show "1 \<le> N \<and>
       length (vals hw) = length ?ex \<and>
       (\<forall>i<length (vals hw).
          length (vals hw ! i) = length (?ex ! i) \<and>
          (\<forall>j<length (vals hw ! i).
             (let e = ?ex ! i ! j in
              length (vals hw ! i ! j) = length e \<and>
              (\<forall>t<length e.
                 vals hw ! i ! j ! t =
                   (\<exists>a b. a \<le> t \<and> t \<le> b \<and> b < length e \<and> nat N \<le> b + 1 - a \<and>
                          (\<forall>k. a \<le> k \<and> k \<le> b \<longrightarrow> e ! k))) \<and>
              (\<forall>a m b. e = replicate a False @ replicate m True @ replicate b False \<longrightarrow>
                 vals hw ! i ! j = (if nat N \<le> m then e else replicate (a + m + b) False)))))"
      by (rule conjI)
  qed
  show ?thesis by (intro conjI A B C)
qed

lemma example_record_length: "length (dim0 example_may_sep) = 12"
  by (simp add: example_may_sep_def example_days_def)

theorem heatwave_days_are_runs_witness:
  "1 \<le> (6::int) \<and> nat 6 \<le> length (dim0 example_may_sep) \<and>
   (\<exists>hw. identify_heatwave_days example_may_sep example_thresholds 6 = Inr hw \<and>
      vals hw = [[replicate 2 False @ replicate 7 True @ replicate 3 False]]) \<and>
   identify_heatwave_days example_may_sep example_thresholds 13 = Inl ZeroDivisionError"
proof -
  have d: "nat 6 \<le> length (dim0 example_may_sep)" by (simp add: example_record_length)
  note thm6 = heatwave_days_are_runs[of 6 example_may_sep example_thresholds]
  obtain hw where hw: "identify_heatwave_days example_may_sep example_thresholds 6 = Inr hw"
    using thm6 d by auto
  have p: "length (vals hw) = length (exceedance example_may_sep example_thresholds) \<and>
     (\<forall>i<length (vals hw).
        length (vals hw ! i) = length (exceedance example_may_sep example_thresholds ! i) \<and>
        (\<forall>j<length (vals hw ! i).
           (let e = exceedance example_may_sep example_thresholds ! i ! j in
            length (vals hw ! i ! j) = length e \<and>
            (\<forall>t<length e.
               vals hw ! i ! j ! t =
                 (\<exists>a b. a \<le> t \<and> t \<le> b \<and> b < length e \<and> nat 6 \<le> b + 1 - a \<and>
                        (\<forall>k. a \<le> k \<and> k \<le> b \<longrightarrow> e ! k))) \<and>
            (\<forall>a m b. e = replicate a False @ replicate m True @ replicate b False \<longrightarrow>
               vals hw ! i ! j = (if nat 6 \<le> m then e else replicate (a + m + b) False)))))"
    using thm6 hw by blast
  have l1: "length (vals hw) = 1" using p by (simp add: example_exceedance)
  have l2: "length (vals hw ! 0) = 1" using p l1 by (simp add: example_exceedance)
  have "\<forall>a m b. replicate 2 False @ replicate 7 True @ replicate 3 False
                  = replicate a False @ replicate m True @ replicate b False \<longrightarrow>
               vals hw ! 0 ! 0 = (if nat 6 \<le> m then replicate 2 False @ replicate 7 True @ replicate 3 False
                               else replicate (a + m + b) False)"
    using p l1 l2 by (simp add: example_exceedance Let_def)
  then have "vals hw ! 0 ! 0 = replicate 2 False @ replicate 7 True @ replicate 3 False"
    by (metis nat_numeral numeral_le_iff semiring_norm(68,79) eval_nat_numeral(3) le_refl nat_le_linear not_less_eq_eq)
  then have "vals hw = [[replicate 2 False @ replicate 7 True @ replicate 3 False]]"
    using l1 l2 by (metis One_nat_def length_0_conv length_Suc_conv nth_Cons_0)
  moreover have "identify_heatwave_days example_may_sep example_thresholds 13 = Inl ZeroDivisionError"
    using heatwave_days_are_runs[of 13 example_may_sep example_thresholds]
    by (simp add: example_record_length example_may_sep_def example_days_def)
  ultimately show ?thesis using hw d by simp
qed

text \<open>
  Claim C3. For every seasonal field, threshold field and run length, at every position
  \<open>(cell, day)\<close> of a field that \<open>identify_heatwave_days\<close> returns, a heatwave flag
  implies the exceedance flag at the same position; and it returns a field for every
  run length \<open>N \<ge> 1\<close> that is not longer than the record.
\<close>

theorem heatwave_implies_exceedance:
  "(1 \<le> N \<and> nat N \<le> length (dim0 may_sep) \<longrightarrow>
      (\<exists>hw. identify_heatwave_days may_sep thresholds N = Inr hw)) \<and>
   (\<forall>hw. identify_heatwave_days may_sep thresholds N = Inr hw \<longrightarrow>
     (\<forall>i<length (vals hw). \<forall>j<length (vals hw ! i). \<forall>t<length (vals hw ! i ! j).
        vals hw ! i ! j ! t \<longrightarrow> exceedance may_sep thresholds ! i ! j ! t))"
proof (intro conjI allI impI)
  assume "1 \<le> N \<and> nat N \<le> length (dim0 may_sep)"
  then show "\<exists>hw. identify_heatwave_days may_sep thresholds N = Inr hw"
    using identify_heatwave_days_Inr[of N may_sep thresholds] by blast
next
  fix hw i j t
  assume h: "identify_heatwave_days may_sep thresholds N = Inr hw"
    and i: "i < length (vals hw)" and j: "j < length (vals hw ! i)"
    and t: "t < length (vals hw ! i ! j)" and f: "vals hw ! i ! j ! t"
  let ?ex = "exceedance may_sep thresholds"
  note n = identify_heatwave_days_returns[OF h]
  have w: "1 \<le> nat N" using n(1) by simp
  have "hw = \<lparr> dim0 = dim0 may_sep, latitude = latitude may_sep,
                longitude = longitude may_sep,
                vals = map (map (heatwave_1d (nat N))) ?ex \<rparr>"
    using h identify_heatwave_days_Inr[OF n, of thresholds] by simp
  then have v: "vals hw = map (map (heatwave_1d (nat N))) ?ex" by simp
  have i': "i < length ?ex" using i by (simp add: v)
  have j': "j < length (?ex ! i)" using j i' by (simp add: v)
  have c: "vals hw ! i ! j = heatwave_1d (nat N) (?ex ! i ! j)" using i' j' by (simp add: v)
  have t': "t < length (?ex ! i ! j)" using t by (simp add: c length_heatwave_1d)
  have "in_run (nat N) (?ex ! i ! j) t"
    using f heatwave_1d_in_run[OF t' w] by (simp add: c)
  then show "?ex ! i ! j ! t" by (auto simp: in_run_def)
qed

theorem heatwave_implies_exceedance_witness:
  "1 \<le> (6::int) \<and> nat 6 \<le> length (dim0 example_may_sep) \<and>
   (\<exists>hw. identify_heatwave_days example_may_sep example_thresholds 6 = Inr hw \<and>
      vals hw ! 0 ! 0 ! 2 \<and> exceedance example_may_sep example_thresholds ! 0 ! 0 ! 2)"
proof -
  have d: "nat 6 \<le> length (dim0 example_may_sep)" by (simp add: example_record_length)
  note thm6 = heatwave_implies_exceedance[of 6 example_may_sep example_thresholds]
  obtain hw where hw: "identify_heatwave_days example_may_sep example_thresholds 6 = Inr hw"
    using thm6 d by auto
  have imp: "\<forall>i<length (vals hw). \<forall>j<length (vals hw ! i). \<forall>t<length (vals hw ! i ! j).
        vals hw ! i ! j ! t \<longrightarrow> exceedance example_may_sep example_thresholds ! i ! j ! t"
    using thm6 hw by blast
  have "vals hw = map (map (heatwave_1d (nat 6))) (exceedance example_may_sep example_thresholds)"
    using hw identify_heatwave_days_Inr[of 6 example_may_sep example_thresholds]
    by (auto simp: example_record_length)
  then have v: "vals hw = [[replicate 2 False @ replicate 7 True @ replicate 3 False]]"
    using heatwave_1d_block[of 6 2 7 3] by (simp add: example_exceedance)
  have "vals hw ! 0 ! 0 ! 2" using block_nth[of 2 2 7 3] by (simp add: v)
  moreover have "0 < length (vals hw)" "0 < length (vals hw ! 0)" "2 < length (vals hw ! 0 ! 0)"
    by (simp_all add: v)
  ultimately show ?thesis using imp hw d by auto
qed

text \<open>
  Claim C6. For a run length \<open>N \<ge> 1\<close> and any exceedance field, a position \<open>t\<close> with
  fewer than \<open>N\<close> days of the record up to and including it (\<open>t + 1 < N\<close>) is not the
  end of a run: the end-of-run flag that \<open>identify_heatwave_days\<close> computes is false
  there, whatever the exceedance values.
\<close>

theorem incomplete_window_is_no_run_end:
  assumes "1 \<le> N" and "i < length exceed" and "j < length (exceed ! i)"
    and "t < length (exceed ! i ! j)" and "t + 1 < N"
  shows "\<not> end_of_runs N exceed ! i ! j ! t"
  using assms end_of_runs_1d_nth[of t "exceed ! i ! j" N]
  by (simp add: end_of_runs_def)

theorem incomplete_window_is_no_run_end_witness:
  "(1::nat) \<le> 6 \<and> (0::nat) < length [[replicate 8 True]] \<and> (0::nat) < length ([[replicate 8 True]] ! 0)
   \<and> (4::nat) < length ([[replicate 8 True]] ! 0 ! 0) \<and> (4::nat) + 1 < 6
   \<and> \<not> end_of_runs 6 [[replicate 8 True]] ! 0 ! 0 ! 4"
  using incomplete_window_is_no_run_end[of 6 0 "[[replicate 8 True]]" 0 4] by simp

subsection \<open>Exceedance\<close>

lemma threshold_at_nth:
  assumes "distinct doys" and "length th = length doys" and "k < length doys"
  shows "threshold_at doys th (doys ! k) = th ! k"
  using assms by (simp add: threshold_at_def map_of_zip_nth)

lemma gt_float_iff: "gt_float x y = (\<exists>a b. x = Some a \<and> y = Some b \<and> b < a)"
  by (cases x; cases y; simp add: gt_float_def)

text \<open>
  Claim C2, amended. The exceedance flag of a day and cell is true if and only if the
  temperature of that day and cell and the threshold of that cell for the day's
  day-of-year are both numbers and the temperature is strictly greater than the
  threshold. (The source compares with \<open>>\<close>; a temperature equal to its threshold
  is not an exceedance.)
\<close>

theorem exceedance_is_strict:
  assumes "i < length (vals may_sep)" and "i < length (vals thresholds)"
    and "j < length (vals may_sep ! i)" and "j < length (vals thresholds ! i)"
    and "t < length (dim0 may_sep)" and "t < length (vals may_sep ! i ! j)"
    and "distinct (dim0 thresholds)"
    and "length (vals thresholds ! i ! j) = length (dim0 thresholds)"
    and "k < length (dim0 thresholds)"
    and "dim0 thresholds ! k = dayofyear (dim0 may_sep ! t)"
  shows "exceedance may_sep thresholds ! i ! j ! t =
           (\<exists>x th. vals may_sep ! i ! j ! t = Some x \<and> vals thresholds ! i ! j ! k = Some th \<and>
                   th < x)"
proof -
  have "exceedance may_sep thresholds ! i ! j ! t =
          gt_float (vals may_sep ! i ! j ! t)
            (threshold_at (dim0 thresholds) (vals thresholds ! i ! j) (dayofyear (dim0 may_sep ! t)))"
    using assms(1-6) by (simp add: exceedance_def exceed_1d_def)
  also have "threshold_at (dim0 thresholds) (vals thresholds ! i ! j) (dayofyear (dim0 may_sep ! t))
             = vals thresholds ! i ! j ! k"
    using threshold_at_nth[OF assms(7,8,9)] assms(10) by simp
  finally show ?thesis by (simp add: gt_float_iff)
qed

theorem exceedance_is_strict_witness:
  "exceedance example_may_sep example_thresholds ! 0 ! 0 ! 2 =
     (\<exists>x th. vals example_may_sep ! 0 ! 0 ! 2 = Some x \<and>
             vals example_thresholds ! 0 ! 0 ! 2 = Some th \<and> th < x)"
proof -
  have h1: "0 < length (vals example_may_sep)" by code_simp
  have h2: "0 < length (vals example_thresholds)" by code_simp
  have h3: "0 < length (vals example_may_sep ! 0)" by code_simp
  have h4: "0 < length (vals example_thresholds ! 0)" by code_simp
  have h5: "2 < length (dim0 example_may_sep)" by code_simp
  have h6: "2 < length (vals example_may_sep ! 0 ! 0)" by code_simp
  have h7: "distinct (dim0 example_thresholds)" by code_simp
  have h8: "length (vals example_thresholds ! 0 ! 0) = length (dim0 example_thresholds)"
    by code_simp
  have h9: "2 < length (dim0 example_thresholds)" by code_simp
  have h10: "dim0 example_thresholds ! 2 = dayofyear (dim0 example_may_sep ! 2)" by code_simp
  show ?thesis by (rule exceedance_is_strict[OF h1 h2 h3 h4 h5 h6 h7 h8 h9 h10])
qed

text \<open>
  Claim C2 as stated fails where the temperature equals the threshold: for the record of
  one day at 30 degrees, the threshold computed from the record is 30, the temperature
  is greater than or equal to it, and the exceedance flag is false.
\<close>

theorem exceedance_tie_counterexample:
  "compute_daily_90th_thresholds tie_may_sep = Inr tie_thresholds \<and>
   vals tie_may_sep ! 0 ! 0 ! 0 = Some 30 \<and>
   vals tie_thresholds ! 0 ! 0 ! 0 = Some 30 \<and>
   dim0 tie_thresholds ! 0 = dayofyear (dim0 tie_may_sep ! 0) \<and>
   ge_float (vals tie_may_sep ! 0 ! 0 ! 0) (vals tie_thresholds ! 0 ! 0 ! 0) \<and>
   \<not> exceedance tie_may_sep tie_thresholds ! 0 ! 0 ! 0"
  by code_simp

subsection \<open>Region masks and loading\<close>

lemma and2d_shape:
  "length (and2d (broadcast_lon first m) v) = min (length first) (length v)"
  "i < length first \<Longrightarrow> i < length v \<Longrightarrow>
     length (and2d (broadcast_lon first m) v ! i) = min (length m) (length (v ! i))"
  "i < length first \<Longrightarrow> i < length v \<Longrightarrow> j < length m \<Longrightarrow> j < length (v ! i) \<Longrightarrow>
     and2d (broadcast_lon first m) v ! i ! j = (m ! j \<and> v ! i ! j)"
  by (simp_all add: and2d_def broadcast_lon_def)

lemma build_region_masks_us:
  assumes "dim0 temp_data \<noteq> []"
  shows "build_region_masks temp_data ''us'' =
     Inr [(''West'', and2d (broadcast_lon (map (map hd) (vals temp_data))
                       (map (\<lambda>l. l < - 105) (longitude temp_data)))
                     (map (map (\<lambda>x. \<not> isnan x)) (map (map hd) (vals temp_data)))),
          (''Central-East'', and2d (broadcast_lon (map (map hd) (vals temp_data))
                       (map (\<lambda>l. l \<ge> - 105) (longitude temp_data)))
                     (map (map (\<lambda>x. \<not> isnan x)) (map (map hd) (vals temp_data)))),
          (''US48'', and2d (broadcast_lon (map (map hd) (vals temp_data))
                       (map (\<lambda>_. True) (map (\<lambda>l. l < - 105) (longitude temp_data))))
                     (map (map (\<lambda>x. \<not> isnan x)) (map (map hd) (vals temp_data))))]"
  using assms by (simp add: build_region_masks_def isel_first_def Let_def)

lemma build_region_masks_us_error:
  "dim0 temp_data = [] \<Longrightarrow> \<exists>e. build_region_masks temp_data region = Inl e"
  by (simp add: build_region_masks_def isel_first_def)

text \<open>
  Claim C4. The three masks that \<open>build_region_masks\<close> returns for region \<open>us\<close> have
  the same shape, and at every cell the US48 mask is the disjunction of the West and
  the Central-East mask, while West and Central-East are never both true. West is
  the US48 mask restricted to longitudes below \<open>-105\<close>, Central-East its restriction to
  longitudes at or above \<open>-105\<close>, and US48 holds the cells whose temperature at the
  first time step is not missing.
\<close>

theorem us_masks_partition:
  assumes "build_region_masks temp_data ''us'' = Inr masks"
  shows "\<exists>west central_east us48.
     masks = [(''West'', west), (''Central-East'', central_east), (''US48'', us48)] \<and>
     length west = length us48 \<and> length central_east = length us48 \<and>
     (\<forall>i<length us48.
        length (west ! i) = length (us48 ! i) \<and> length (central_east ! i) = length (us48 ! i) \<and>
        (\<forall>j<length (us48 ! i).
           us48 ! i ! j = (west ! i ! j \<or> central_east ! i ! j) \<and>
           \<not> (west ! i ! j \<and> central_east ! i ! j) \<and>
           west ! i ! j = (longitude temp_data ! j < - 105 \<and> us48 ! i ! j) \<and>
           central_east ! i ! j = (longitude temp_data ! j \<ge> - 105 \<and> us48 ! i ! j) \<and>
           us48 ! i ! j = (\<not> isnan (hd (vals temp_data ! i ! j)))))"
proof -
  have ne: "dim0 temp_data \<noteq> []"
    using assms build_region_masks_us_error[of temp_data "''us''"] by auto
  let ?first = "map (map hd) (vals temp_data)"
  let ?valid = "map (map (\<lambda>x. \<not> isnan x)) ?first"
  let ?lon = "longitude temp_data"
  let ?w = "and2d (broadcast_lon ?first (map (\<lambda>l. l < - 105) ?lon)) ?valid"
  let ?c = "and2d (broadcast_lon ?first (map (\<lambda>l. l \<ge> - 105) ?lon)) ?valid"
  let ?u = "and2d (broadcast_lon ?first (map (\<lambda>_. True) (map (\<lambda>l. l < - 105) ?lon))) ?valid"
  have m: "masks = [(''West'', ?w), (''Central-East'', ?c), (''US48'', ?u)]"
    using assms build_region_masks_us[OF ne] by simp
  have "length ?w = length ?u \<and> length ?c = length ?u \<and>
     (\<forall>i<length ?u.
        length (?w ! i) = length (?u ! i) \<and> length (?c ! i) = length (?u ! i) \<and>
        (\<forall>j<length (?u ! i).
           ?u ! i ! j = (?w ! i ! j \<or> ?c ! i ! j) \<and>
           \<not> (?w ! i ! j \<and> ?c ! i ! j) \<and>
           ?w ! i ! j = (?lon ! j < - 105 \<and> ?u ! i ! j) \<and>
           ?c ! i ! j = (?lon ! j \<ge> - 105 \<and> ?u ! i ! j) \<and>
           ?u ! i ! j = (\<not> isnan (hd (vals temp_data ! i ! j)))))"
    by (auto simp: and2d_shape)
  then show ?thesis using m by blast
qed

lemma example_us_masks:
  "build_region_masks example_temp_land ''us'' =
     Inr [(''West'', [[True, False, False]]), (''Central-East'', [[False, True, False]]),
          (''US48'', [[True, True, False]])]"
  by (simp add: build_region_masks_def isel_first_def example_temp_land_def isnan_def
        and2d_def broadcast_lon_def Let_def)

theorem us_masks_partition_witness:
  "build_region_masks example_temp_land ''us'' =
     Inr [(''West'', [[True, False, False]]), (''Central-East'', [[False, True, False]]),
          (''US48'', [[True, True, False]])] \<and>
   (\<exists>west central_east us48.
     [(''West'', [[True, False, False]]), (''Central-East'', [[False, True, False]]),
      (''US48'', [[True, True, False]])]
       = [(''West'', west), (''Central-East'', central_east), (''US48'', us48)] \<and>
     length west = length us48 \<and> length central_east = length us48 \<and>
     (\<forall>i<length us48.
        length (west ! i) = length (us48 ! i) \<and> length (central_east ! i) = length (us48 ! i) \<and>
        (\<forall>j<length (us48 ! i).
           us48 ! i ! j = (west ! i ! j \<or> central_east ! i ! j) \<and>
           \<not> (west ! i ! j \<and> central_east ! i ! j) \<and>
           west ! i ! j = (longitude example_temp_land ! j < - 105 \<and> us48 ! i ! j) \<and>
           central_east ! i ! j = (longitude example_temp_land ! j \<ge> - 105 \<and> us48 ! i ! j) \<and>
           us48 ! i ! j = (\<not> isnan (hd (vals example_temp_land ! i ! j))))))"
  by (rule conjI[OF example_us_masks us_masks_partition[OF example_us_masks]])

lemma wf_var_nth:
  assumes "wf_var ds v" and "i < length (ds_latitude ds)" and "j < length (ds_longitude ds)"
  shows "i < length v" and "j < length (v ! i)" and "length (v ! i ! j) = length (ds_time ds)"
  using assms by (auto simp: wf_var_def list_all_length)

lemma wf_var_shape:
  assumes "wf_var ds v"
  shows "length v = length (ds_latitude ds)"
    and "i < length v \<Longrightarrow> length (v ! i) = length (ds_longitude ds)"
  using assms by (auto simp: wf_var_def list_all_length)

lemma load_temperature_data_Inr:
  assumes "data_vars ds ''temperature'' = Some temp" and "data_vars ds ''land_mask'' = Some lm"
    and "ds_time ds \<noteq> []"
  shows "load_temperature_data ds =
     Inr \<lparr> dim0 = ds_time ds, latitude = ds_latitude ds, longitude = ds_longitude ds,
           vals = where_mask temp (map (map hd) (map (map (map (\<lambda>x. gt_float x (Some 0)))) lm)) \<rparr>"
  using assms by (simp add: load_temperature_data_def isel_first_def)

lemma where_mask_nth:
  assumes "wf_var ds temp" and "wf_var ds lm" and "ds_time ds \<noteq> []"
    and "i < length (ds_latitude ds)" and "j < length (ds_longitude ds)"
  shows "where_mask temp (map (map hd) (map (map (map (\<lambda>x. gt_float x (Some 0)))) lm)) ! i ! j
         = map (\<lambda>x. if gt_float (lm ! i ! j ! 0) (Some 0) then x else None) (temp ! i ! j)"
proof -
  have a: "i < length temp" "j < length (temp ! i)" "i < length lm" "j < length (lm ! i)"
      "length (lm ! i ! j) = length (ds_time ds)"
    using wf_var_nth[OF assms(1,4,5)] wf_var_nth[OF assms(2,4,5)] by auto
  then have "lm ! i ! j \<noteq> []" using assms(3) by auto
  then have "hd (map (\<lambda>x. gt_float x (Some 0)) (lm ! i ! j)) = gt_float (lm ! i ! j ! 0) (Some 0)"
    by (simp add: hd_map hd_conv_nth)
  then show ?thesis using a by (simp add: where_mask_def)
qed

lemma where_mask_shape:
  assumes "wf_var ds temp" and "wf_var ds lm"
  shows "length (where_mask temp (map (map hd) (map (map (map (\<lambda>x. gt_float x (Some 0)))) lm)))
          = length (ds_latitude ds)"
    and "i < length (ds_latitude ds) \<Longrightarrow>
         length (where_mask temp (map (map hd) (map (map (map (\<lambda>x. gt_float x (Some 0)))) lm)) ! i)
          = length (ds_longitude ds)"
  using wf_var_shape[OF assms(1)] wf_var_shape[OF assms(2)]
  by (simp_all add: where_mask_def)

text \<open>
  Claim C9. \<open>load_temperature_data\<close> fails with the missing-variable error (a KeyError)
  if and only if the dataset lacks \<open>temperature\<close> or lacks \<open>land_mask\<close>. When both are
  present, in a dataset with at least one time step and variables of the shape of the
  coordinates, it returns the temperature field on the same coordinates, with every
  value of a cell whose land mask at the first time step is not greater than 0 set
  to missing, and every other value unchanged.
\<close>

theorem load_missing_variable:
  shows "((\<exists>msg. load_temperature_data ds = Inl (KeyError msg)) \<longleftrightarrow>
            (data_vars ds ''temperature'' = None \<or> data_vars ds ''land_mask'' = None)) \<and>
         (\<forall>temp lm. data_vars ds ''temperature'' = Some temp \<and> data_vars ds ''land_mask'' = Some lm \<and>
            ds_time ds \<noteq> [] \<and> wf_var ds temp \<and> wf_var ds lm \<longrightarrow>
            (\<exists>temp_land. load_temperature_data ds = Inr temp_land \<and>
               dim0 temp_land = ds_time ds \<and> latitude temp_land = ds_latitude ds \<and>
               longitude temp_land = ds_longitude ds \<and>
               length (vals temp_land) = length (ds_latitude ds) \<and>
               (\<forall>i<length (ds_latitude ds).
                  length (vals temp_land ! i) = length (ds_longitude ds) \<and>
                  (\<forall>j<length (ds_longitude ds).
                     length (vals temp_land ! i ! j) = length (ds_time ds) \<and>
                     (\<forall>t<length (ds_time ds).
                        vals temp_land ! i ! j ! t =
                          (if gt_float (lm ! i ! j ! 0) (Some 0) then temp ! i ! j ! t else None))))))"
proof (intro conjI allI impI)
  show "(\<exists>msg. load_temperature_data ds = Inl (KeyError msg)) \<longleftrightarrow>
            (data_vars ds ''temperature'' = None \<or> data_vars ds ''land_mask'' = None)"
    by (auto simp: load_temperature_data_def isel_first_def split: option.splits)
next
  fix temp lm
  assume h: "data_vars ds ''temperature'' = Some temp \<and> data_vars ds ''land_mask'' = Some lm \<and>
            ds_time ds \<noteq> [] \<and> wf_var ds temp \<and> wf_var ds lm"
  let ?v = "where_mask temp (map (map hd) (map (map (map (\<lambda>x. gt_float x (Some 0)))) lm))"
  let ?tl = "\<lparr> dim0 = ds_time ds, latitude = ds_latitude ds, longitude = ds_longitude ds,
           vals = ?v \<rparr>"
  have r: "load_temperature_data ds = Inr ?tl" using h load_temperature_data_Inr by blast
  have n: "?v ! i ! j = map (\<lambda>x. if gt_float (lm ! i ! j ! 0) (Some 0) then x else None) (temp ! i ! j)"
    if "i < length (ds_latitude ds)" "j < length (ds_longitude ds)" for i j
    using where_mask_nth[of ds temp lm i j] h that by blast
  have l: "length (temp ! i ! j) = length (ds_time ds)"
    if "i < length (ds_latitude ds)" "j < length (ds_longitude ds)" for i j
    using wf_var_nth(3)[of ds temp i j] h that by blast
  have s: "length ?v = length (ds_latitude ds)"
      "\<And>i. i < length (ds_latitude ds) \<Longrightarrow> length (?v ! i) = length (ds_longitude ds)"
    using where_mask_shape[of ds temp lm] h by blast+
  show "\<exists>temp_land. load_temperature_data ds = Inr temp_land \<and>
               dim0 temp_land = ds_time ds \<and> latitude temp_land = ds_latitude ds \<and>
               longitude temp_land = ds_longitude ds \<and>
               length (vals temp_land) = length (ds_latitude ds) \<and>
               (\<forall>i<length (ds_latitude ds).
                  length (vals temp_land ! i) = length (ds_longitude ds) \<and>
                  (\<forall>j<length (ds_longitude ds).
                     length (vals temp_land ! i ! j) = length (ds_time ds) \<and>
                     (\<forall>t<length (ds_time ds).
                        vals temp_land ! i ! j ! t =
                          (if gt_float (lm ! i ! j ! 0) (Some 0) then temp ! i ! j ! t else None))))"
    apply (rule exI[of _ ?tl])
    apply (simp only: r)
    using n l s by simp
qed

lemma loaded_first_slice:
  assumes "wf_var ds temp" and "wf_var ds lm" and "ds_time ds \<noteq> []"
  shows "map (map hd) (where_mask temp (map (map hd) (map (map (map (\<lambda>x. gt_float x (Some 0)))) lm)))
         = first_slice ds temp lm"
proof (rule nth_equalityI)
  let ?v = "where_mask temp (map (map hd) (map (map (map (\<lambda>x. gt_float x (Some 0)))) lm))"
  show "length (map (map hd) ?v) = length (first_slice ds temp lm)"
    using where_mask_shape(1)[OF assms(1,2)] by (simp add: first_slice_def)
  fix i assume "i < length (map (map hd) ?v)"
  then have i: "i < length (ds_latitude ds)" using where_mask_shape(1)[OF assms(1,2)] by simp
  then have li: "length (?v ! i) = length (ds_longitude ds)" "i < length ?v"
    using where_mask_shape[OF assms(1,2)] by simp_all
  have "map hd (?v ! i) = first_slice ds temp lm ! i"
  proof (rule nth_equalityI)
    show "length (map hd (?v ! i)) = length (first_slice ds temp lm ! i)"
      using li i by (simp add: first_slice_def)
    fix j assume "j < length (map hd (?v ! i))"
    then have j: "j < length (ds_longitude ds)" using li by simp
    have "temp ! i ! j \<noteq> []" using wf_var_nth(3)[OF assms(1) i j] assms(3) by auto
    then have "hd (?v ! i ! j) = (if gt_float (lm ! i ! j ! 0) (Some 0) then temp ! i ! j ! 0 else None)"
      using where_mask_nth[OF assms i j] by (simp add: hd_map hd_conv_nth)
    then show "map hd (?v ! i) ! j = first_slice ds temp lm ! i ! j"
      using i j li by (simp add: first_slice_def)
  qed
  then show "map (map hd) ?v ! i = first_slice ds temp lm ! i" using li by simp
qed

lemma first_slice_cong:
  assumes "ds_latitude ds' = ds_latitude ds" and "ds_longitude ds' = ds_longitude ds"
    and "\<forall>i<length (ds_latitude ds). \<forall>j<length (ds_longitude ds).
           temp' ! i ! j ! 0 = temp ! i ! j ! 0 \<and> lm' ! i ! j ! 0 = lm ! i ! j ! 0"
  shows "first_slice ds' temp' lm' = first_slice ds temp lm"
  using assms by (simp add: first_slice_def)

lemma build_region_masks_first:
  assumes "dim0 a \<noteq> []" and "dim0 b \<noteq> []" and "longitude a = longitude b"
    and "map (map hd) (vals a) = map (map hd) (vals b)"
  shows "build_region_masks a region = build_region_masks b region"
proof -
  have "isel_first (dim0 a) (vals a) = isel_first (dim0 b) (vals b)"
    using assms(1,2,4) by (simp add: isel_first_def)
  then show ?thesis by (simp only: build_region_masks_def assms(3))
qed

lemma build_region_masks_nh:
  assumes "dim0 temp_data \<noteq> []"
  shows "build_region_masks temp_data ''nh'' =
     Inr [(''NH'', map (map (\<lambda>x. \<not> isnan x)) (map (map hd) (vals temp_data)))]"
  using assms by (simp add: build_region_masks_def isel_first_def Let_def)

lemma build_region_masks_us_first:
  assumes "dim0 temp_data \<noteq> []" and "map (map hd) (vals temp_data) = F"
    and "longitude temp_data = lon"
  shows "build_region_masks temp_data ''us'' =
     Inr [(''West'', and2d (broadcast_lon F (map (\<lambda>l. l < - 105) lon))
                           (map (map (\<lambda>x. \<not> isnan x)) F)),
          (''Central-East'', and2d (broadcast_lon F (map (\<lambda>l. l \<ge> - 105) lon))
                           (map (map (\<lambda>x. \<not> isnan x)) F)),
          (''US48'', and2d (broadcast_lon F (map (\<lambda>_. True) (map (\<lambda>l. l < - 105) lon)))
                           (map (map (\<lambda>x. \<not> isnan x)) F))]"
  using build_region_masks_us[OF assms(1)] by (simp only: assms(2,3))

lemma build_region_masks_nh_first:
  assumes "dim0 temp_data \<noteq> []" and "map (map hd) (vals temp_data) = F"
  shows "build_region_masks temp_data ''nh'' = Inr [(''NH'', map (map (\<lambda>x. \<not> isnan x)) F)]"
  using build_region_masks_nh[OF assms(1)] by (simp only: assms(2))

lemma first_slice_nth:
  assumes "i < length (ds_latitude ds)" and "j < length (ds_longitude ds)"
  shows "length (first_slice ds temp lm) = length (ds_latitude ds)"
    and "length (first_slice ds temp lm ! i) = length (ds_longitude ds)"
    and "first_slice ds temp lm ! i ! j =
           (if gt_float (lm ! i ! j ! 0) (Some 0) then temp ! i ! j ! 0 else None)"
  using assms by (simp_all add: first_slice_def)

text \<open>
  Claim C10. For a dataset with both variables, at least one time step and variables of
  the shape of the coordinates, the masks that \<open>build_region_masks\<close> returns for the
  loaded field are decided by the first time step: a cell is eligible (it is in the
  \<open>NH\<close> and \<open>US48\<close> masks) if and only if its land mask at the first time step is
  greater than 0 and its land-masked temperature at the first time step is not missing,
  \<open>West\<close> and \<open>Central-East\<close> add the longitude test, and a second dataset with the same
  coordinates and the same values of both variables at the first time step gives the
  same result for every region.
\<close>

theorem masks_decided_by_first_time_step:
  assumes tv: "data_vars ds ''temperature'' = Some temp"
    and lv: "data_vars ds ''land_mask'' = Some lm"
    and ne: "ds_time ds \<noteq> []" and wt: "wf_var ds temp" and wl: "wf_var ds lm"
  shows "\<exists>temp_land west central_east us48 nh.
      load_temperature_data ds = Inr temp_land \<and>
      build_region_masks temp_land ''us'' =
        Inr [(''West'', west), (''Central-East'', central_east), (''US48'', us48)] \<and>
      build_region_masks temp_land ''nh'' = Inr [(''NH'', nh)] \<and>
      (\<forall>i<length (ds_latitude ds). \<forall>j<length (ds_longitude ds).
         nh ! i ! j = (gt_float (lm ! i ! j ! 0) (Some 0) \<and> \<not> isnan (vals temp_land ! i ! j ! 0)) \<and>
         nh ! i ! j = (gt_float (lm ! i ! j ! 0) (Some 0) \<and> \<not> isnan (temp ! i ! j ! 0)) \<and>
         us48 ! i ! j = nh ! i ! j \<and>
         west ! i ! j = (nh ! i ! j \<and> ds_longitude ds ! j < - 105) \<and>
         central_east ! i ! j = (nh ! i ! j \<and> ds_longitude ds ! j \<ge> - 105)) \<and>
      (\<forall>ds' temp' lm'.
         data_vars ds' ''temperature'' = Some temp' \<and> data_vars ds' ''land_mask'' = Some lm' \<and>
         ds_time ds' \<noteq> [] \<and> wf_var ds' temp' \<and> wf_var ds' lm' \<and>
         ds_latitude ds' = ds_latitude ds \<and> ds_longitude ds' = ds_longitude ds \<and>
         (\<forall>i<length (ds_latitude ds). \<forall>j<length (ds_longitude ds).
            temp' ! i ! j ! 0 = temp ! i ! j ! 0 \<and> lm' ! i ! j ! 0 = lm ! i ! j ! 0)
         \<longrightarrow> (\<exists>temp_land'. load_temperature_data ds' = Inr temp_land' \<and>
               (\<forall>region. build_region_masks temp_land' region
                          = build_region_masks temp_land region)))"
proof -
  let ?v = "where_mask temp (map (map hd) (map (map (map (\<lambda>x. gt_float x (Some 0)))) lm))"
  let ?tl = "\<lparr> dim0 = ds_time ds, latitude = ds_latitude ds, longitude = ds_longitude ds,
              vals = ?v \<rparr>"
  let ?F = "first_slice ds temp lm"
  let ?valid = "map (map (\<lambda>x. \<not> isnan x)) ?F"
  let ?lon = "ds_longitude ds"
  let ?w = "and2d (broadcast_lon ?F (map (\<lambda>l. l < - 105) ?lon)) ?valid"
  let ?c = "and2d (broadcast_lon ?F (map (\<lambda>l. l \<ge> - 105) ?lon)) ?valid"
  let ?u = "and2d (broadcast_lon ?F (map (\<lambda>_. True) (map (\<lambda>l. l < - 105) ?lon))) ?valid"
  have r: "load_temperature_data ds = Inr ?tl"
    by (rule load_temperature_data_Inr[OF tv lv ne])
  have F: "map (map hd) ?v = ?F" by (rule loaded_first_slice[OF wt wl ne])
  have d: "dim0 ?tl \<noteq> []" using ne by simp
  have vF: "map (map hd) (vals ?tl) = ?F" by (simp only: data_array.select_convs F)
  have lo: "longitude ?tl = ?lon" by simp
  have us: "build_region_masks ?tl ''us'' =
              Inr [(''West'', ?w), (''Central-East'', ?c), (''US48'', ?u)]"
    by (rule build_region_masks_us_first[OF d vF lo])
  have nh: "build_region_masks ?tl ''nh'' = Inr [(''NH'', ?valid)]"
    by (rule build_region_masks_nh_first[OF d vF])
  have pt: "?valid ! i ! j = (gt_float (lm ! i ! j ! 0) (Some 0) \<and> \<not> isnan (?v ! i ! j ! 0)) \<and>
         ?valid ! i ! j = (gt_float (lm ! i ! j ! 0) (Some 0) \<and> \<not> isnan (temp ! i ! j ! 0)) \<and>
         ?u ! i ! j = ?valid ! i ! j \<and>
         ?w ! i ! j = (?valid ! i ! j \<and> ?lon ! j < - 105) \<and>
         ?c ! i ! j = (?valid ! i ! j \<and> ?lon ! j \<ge> - 105)"
    if i: "i < length (ds_latitude ds)" and j: "j < length (ds_longitude ds)" for i j
  proof -
    have t0: "0 < length (temp ! i ! j)" using wf_var_nth(3)[OF wt i j] ne by simp
    have v0: "?v ! i ! j ! 0 = (if gt_float (lm ! i ! j ! 0) (Some 0) then temp ! i ! j ! 0 else None)"
      using where_mask_nth[OF wt wl ne i j] t0 by simp
    have va: "?valid ! i ! j = (\<not> isnan (?F ! i ! j))"
      using first_slice_nth(1,2)[OF i j, of temp lm] i j by simp
    have f: "?F ! i ! j = (if gt_float (lm ! i ! j ! 0) (Some 0) then temp ! i ! j ! 0 else None)"
      by (rule first_slice_nth(3)[OF i j])
    have sh: "i < length ?F" "i < length ?valid" "j < length (?valid ! i)"
      using first_slice_nth(1,2)[OF i j, of temp lm] i j by simp_all
    have a1: "?u ! i ! j = ?valid ! i ! j"
      using and2d_shape(3)[of i ?F ?valid j "map (\<lambda>_. True) (map (\<lambda>l. l < - 105) ?lon)"] sh j
      by simp
    have a2: "?w ! i ! j = (?valid ! i ! j \<and> ?lon ! j < - 105)"
      using and2d_shape(3)[of i ?F ?valid j "map (\<lambda>l. l < - 105) ?lon"] sh j
      by auto
    have a3: "?c ! i ! j = (?valid ! i ! j \<and> ?lon ! j \<ge> - 105)"
      using and2d_shape(3)[of i ?F ?valid j "map (\<lambda>l. l \<ge> - 105) ?lon"] sh j
      by auto
    show ?thesis
      by (simp only: a1 a2 a3 va f v0) (simp add: isnan_def)
  qed
  have ind: "\<exists>temp_land'. load_temperature_data ds' = Inr temp_land' \<and>
               (\<forall>region. build_region_masks temp_land' region = build_region_masks ?tl region)"
    if h: "data_vars ds' ''temperature'' = Some temp' \<and> data_vars ds' ''land_mask'' = Some lm' \<and>
         ds_time ds' \<noteq> [] \<and> wf_var ds' temp' \<and> wf_var ds' lm' \<and>
         ds_latitude ds' = ds_latitude ds \<and> ds_longitude ds' = ds_longitude ds \<and>
         (\<forall>i<length (ds_latitude ds). \<forall>j<length (ds_longitude ds).
            temp' ! i ! j ! 0 = temp ! i ! j ! 0 \<and> lm' ! i ! j ! 0 = lm ! i ! j ! 0)"
    for ds' temp' lm'
  proof -
    let ?v' = "where_mask temp' (map (map hd) (map (map (map (\<lambda>x. gt_float x (Some 0)))) lm'))"
    let ?tl' = "\<lparr> dim0 = ds_time ds', latitude = ds_latitude ds', longitude = ds_longitude ds',
              vals = ?v' \<rparr>"
    have r': "load_temperature_data ds' = Inr ?tl'"
      using load_temperature_data_Inr[of ds' temp' lm'] h by blast
    have "map (map hd) ?v' = first_slice ds' temp' lm'"
      using loaded_first_slice[of ds' temp' lm'] h by blast
    also have "\<dots> = ?F" using first_slice_cong[of ds' ds temp' temp lm' lm] h by blast
    finally have e: "map (map hd) (vals ?tl') = map (map hd) (vals ?tl)" using F by simp
    have "build_region_masks ?tl' region = build_region_masks ?tl region" for region
      using build_region_masks_first[of ?tl' ?tl region] e h ne by simp
    then show ?thesis using r' by blast
  qed
  show ?thesis
    apply (rule exI[of _ ?tl], rule exI[of _ ?w], rule exI[of _ ?c], rule exI[of _ ?u],
           rule exI[of _ ?valid])
    apply (intro conjI)
    subgoal by (rule r)
    subgoal by (rule us)
    subgoal by (rule nh)
    subgoal by (simp only: data_array.select_convs) (use pt in blast)
    subgoal using ind by blast
    done
qed

lemma example_ds_facts:
  "data_vars example_ds ''temperature'' = Some example_temperature"
  "data_vars example_ds ''land_mask'' = Some example_land_mask"
  "ds_time example_ds \<noteq> []"
  "wf_var example_ds example_temperature"
  "wf_var example_ds example_land_mask"
  by (simp_all add: example_ds_def wf_var_def example_temperature_def example_land_mask_def)

lemma example_ds_later_facts:
  "data_vars example_ds_later ''temperature'' = Some later_temperature"
  "data_vars example_ds_later ''land_mask'' = Some later_land_mask"
  "ds_time example_ds_later \<noteq> []"
  "wf_var example_ds_later later_temperature"
  "wf_var example_ds_later later_land_mask"
  "ds_latitude example_ds_later = ds_latitude example_ds"
  "ds_longitude example_ds_later = ds_longitude example_ds"
  "\<forall>i<length (ds_latitude example_ds). \<forall>j<length (ds_longitude example_ds).
     later_temperature ! i ! j ! 0 = example_temperature ! i ! j ! 0 \<and>
     later_land_mask ! i ! j ! 0 = example_land_mask ! i ! j ! 0"
  by (simp_all add: example_ds_later_def example_ds_def wf_var_def later_temperature_def
        later_land_mask_def example_temperature_def example_land_mask_def
        less_Suc_eq nth_Cons')

theorem load_missing_variable_witness:
  "(\<exists>msg. load_temperature_data (example_ds\<lparr>data_vars := Map.empty\<rparr>) = Inl (KeyError msg)) \<and>
   \<not> (\<exists>msg. load_temperature_data example_ds = Inl (KeyError msg)) \<and>
   (\<exists>temp_land. load_temperature_data example_ds = Inr temp_land \<and>
      vals temp_land ! 0 ! 0 ! 1 = Some 26 \<and> vals temp_land ! 0 ! 2 ! 1 = None)"
proof -
  have a: "\<exists>msg. load_temperature_data (example_ds\<lparr>data_vars := Map.empty\<rparr>) = Inl (KeyError msg)"
    using load_missing_variable[of "example_ds\<lparr>data_vars := Map.empty\<rparr>"] by simp
  have b: "\<not> (\<exists>msg. load_temperature_data example_ds = Inl (KeyError msg))"
    using load_missing_variable[of example_ds] example_ds_facts(1,2) by simp
  obtain temp_land where t: "load_temperature_data example_ds = Inr temp_land"
    and v: "\<forall>i<length (ds_latitude example_ds).
                  length (vals temp_land ! i) = length (ds_longitude example_ds) \<and>
                  (\<forall>j<length (ds_longitude example_ds).
                     length (vals temp_land ! i ! j) = length (ds_time example_ds) \<and>
                     (\<forall>t<length (ds_time example_ds).
                        vals temp_land ! i ! j ! t =
                          (if gt_float (example_land_mask ! i ! j ! 0) (Some 0)
                           then example_temperature ! i ! j ! t else None)))"
    using load_missing_variable[of example_ds] example_ds_facts by blast
  have "vals temp_land ! 0 ! 0 ! 1 = Some 26" "vals temp_land ! 0 ! 2 ! 1 = None"
    using v by (simp_all add: example_ds_def example_land_mask_def example_temperature_def
                  gt_float_def)
  then show ?thesis using a b t by blast
qed

theorem masks_decided_by_first_time_step_witness:
  "\<exists>temp_land temp_land'.
      load_temperature_data example_ds = Inr temp_land \<and>
      load_temperature_data example_ds_later = Inr temp_land' \<and>
      later_temperature \<noteq> example_temperature \<and> later_land_mask \<noteq> example_land_mask \<and>
      build_region_masks temp_land' ''us'' = build_region_masks temp_land ''us''"
proof -
  obtain temp_land where t: "load_temperature_data example_ds = Inr temp_land"
    and i: "\<forall>ds' temp' lm'.
         data_vars ds' ''temperature'' = Some temp' \<and> data_vars ds' ''land_mask'' = Some lm' \<and>
         ds_time ds' \<noteq> [] \<and> wf_var ds' temp' \<and> wf_var ds' lm' \<and>
         ds_latitude ds' = ds_latitude example_ds \<and> ds_longitude ds' = ds_longitude example_ds \<and>
         (\<forall>i<length (ds_latitude example_ds). \<forall>j<length (ds_longitude example_ds).
            temp' ! i ! j ! 0 = example_temperature ! i ! j ! 0 \<and>
            lm' ! i ! j ! 0 = example_land_mask ! i ! j ! 0)
         \<longrightarrow> (\<exists>temp_land'. load_temperature_data ds' = Inr temp_land' \<and>
               (\<forall>region. build_region_masks temp_land' region
                          = build_region_masks temp_land region))"
    using masks_decided_by_first_time_step[OF example_ds_facts] by blast
  from i example_ds_later_facts
  obtain temp_land' where "load_temperature_data example_ds_later = Inr temp_land'"
    "\<forall>region. build_region_masks temp_land' region = build_region_masks temp_land region"
    by blast
  moreover have "later_temperature \<noteq> example_temperature" "later_land_mask \<noteq> example_land_mask"
    by (simp_all add: later_temperature_def example_temperature_def later_land_mask_def
          example_land_mask_def)
  ultimately show ?thesis using t by blast
qed

subsection \<open>Trailing average\<close>

lemma dropna_conv: "dropna ys = map the (filter (\<lambda>y. y \<noteq> None) ys)"
  by (induction ys rule: dropna.induct) simp_all

lemma length_dropna:
  "length (dropna ys) = card {k. k < length ys \<and> ys ! k \<noteq> None}"
  by (simp add: dropna_conv length_filter_conv_card)

lemma sum_list_dropna:
  fixes ys :: "real option list"
  shows "sum_list (dropna ys) = (\<Sum>k\<in>{k. k < length ys \<and> ys ! k \<noteq> None}. the (ys ! k))"
proof -
  have "sum_list (dropna ys) = sum_list (map (\<lambda>y. if y \<noteq> None then the y else 0) ys)"
    by (simp add: dropna_conv sum_list_map_filter')
  also have "\<dots> = (\<Sum>k = 0..<length ys. if ys ! k \<noteq> None then the (ys ! k) else 0)"
    by (simp add: sum_list_sum_nth)
  also have "\<dots> = (\<Sum>k\<in>{k \<in> {0..<length ys}. ys ! k \<noteq> None}. the (ys ! k))"
    by (rule sum.inter_filter[symmetric]) simp
  also have "{k \<in> {0..<length ys}. ys ! k \<noteq> None} = {k. k < length ys \<and> ys ! k \<noteq> None}"
    by auto
  finally show ?thesis .
qed

lemma window_length:
  "i < length xs \<Longrightarrow> length (drop lo (take (i + 1) xs)) = i + 1 - lo"
  by auto

lemma window_nth:
  "i < length xs \<Longrightarrow> k < i + 1 - lo \<Longrightarrow> drop lo (take (i + 1) xs) ! k = xs ! (lo + k)"
  by auto

lemma window_valid_card:
  assumes "i < length xs"
  shows "card {k. k < length (drop lo (take (i + 1) xs)) \<and> drop lo (take (i + 1) xs) ! k \<noteq> None}
         = card {k. lo \<le> k \<and> k \<le> i \<and> xs ! k \<noteq> None}"
proof (rule bij_betw_same_card[of "\<lambda>k. lo + k"])
  show "bij_betw (\<lambda>k. lo + k)
          {k. k < length (drop lo (take (i + 1) xs)) \<and> drop lo (take (i + 1) xs) ! k \<noteq> None}
          {k. lo \<le> k \<and> k \<le> i \<and> xs ! k \<noteq> None}"
    unfolding bij_betw_def
  proof
    show "inj_on (\<lambda>k. lo + k) {k. k < length (drop lo (take (i + 1) xs)) \<and> drop lo (take (i + 1) xs) ! k \<noteq> None}"
      by (simp add: inj_on_def)
    show "(\<lambda>k. lo + k) ` {k. k < length (drop lo (take (i + 1) xs)) \<and> drop lo (take (i + 1) xs) ! k \<noteq> None}
          = {k. lo \<le> k \<and> k \<le> i \<and> xs ! k \<noteq> None}"
    proof (rule set_eqI)
      fix x
      show "x \<in> (\<lambda>k. lo + k) ` {k. k < length (drop lo (take (i + 1) xs)) \<and> drop lo (take (i + 1) xs) ! k \<noteq> None}
            \<longleftrightarrow> x \<in> {k. lo \<le> k \<and> k \<le> i \<and> xs ! k \<noteq> None}"
      proof
        assume "x \<in> (\<lambda>k. lo + k) ` {k. k < length (drop lo (take (i + 1) xs)) \<and> drop lo (take (i + 1) xs) ! k \<noteq> None}"
        then obtain k where k: "x = lo + k" "k < i + 1 - lo" "drop lo (take (i + 1) xs) ! k \<noteq> None"
          using window_length[OF assms, of lo] by auto
        then show "x \<in> {k. lo \<le> k \<and> k \<le> i \<and> xs ! k \<noteq> None}"
          using window_nth[OF assms, of k lo] by auto
      next
        assume "x \<in> {k. lo \<le> k \<and> k \<le> i \<and> xs ! k \<noteq> None}"
        then have x: "lo \<le> x" "x \<le> i" "xs ! x \<noteq> None" by auto
        then have "x - lo < i + 1 - lo" "lo + (x - lo) = x" by auto
        then have "x - lo \<in> {k. k < length (drop lo (take (i + 1) xs)) \<and> drop lo (take (i + 1) xs) ! k \<noteq> None}"
          using window_nth[OF assms, of "x - lo" lo] window_length[OF assms, of lo] x(3) by simp
        then show "x \<in> (\<lambda>k. lo + k) ` {k. k < length (drop lo (take (i + 1) xs)) \<and> drop lo (take (i + 1) xs) ! k \<noteq> None}"
          using \<open>lo + (x - lo) = x\<close> by (metis (no_types, lifting) image_eqI)
      qed
    qed
  qed
qed


lemma window_valid_sum:
  fixes xs :: "real option list"
  assumes "i < length xs"
  shows "(\<Sum>k\<in>{k. k < length (drop lo (take (i + 1) xs)) \<and> drop lo (take (i + 1) xs) ! k \<noteq> None}.
            the (drop lo (take (i + 1) xs) ! k))
         = (\<Sum>k\<in>{k. lo \<le> k \<and> k \<le> i \<and> xs ! k \<noteq> None}. the (xs ! k))"
proof (rule sum.reindex_bij_witness[of _ "\<lambda>k. k - lo" "\<lambda>k. lo + k"])
  fix a
  assume "a \<in> {k. k < length (drop lo (take (i + 1) xs)) \<and> drop lo (take (i + 1) xs) ! k \<noteq> None}"
  then have a: "a < i + 1 - lo" "drop lo (take (i + 1) xs) ! a \<noteq> None"
    using window_length[OF assms, of lo] by auto
  show "lo + a - lo = a" by simp
  show "lo + a \<in> {k. lo \<le> k \<and> k \<le> i \<and> xs ! k \<noteq> None}"
    using a window_nth[OF assms, of a lo] by auto
  show "the (xs ! (lo + a)) = the (drop lo (take (i + 1) xs) ! a)"
    using a window_nth[OF assms, of a lo] by simp
next
  fix b
  assume "b \<in> {k. lo \<le> k \<and> k \<le> i \<and> xs ! k \<noteq> None}"
  then have b: "lo \<le> b" "b \<le> i" "xs ! b \<noteq> None" by auto
  show "lo + (b - lo) = b" using b by simp
  have "b - lo < i + 1 - lo" using b by auto
  then show "b - lo \<in> {k. k < length (drop lo (take (i + 1) xs)) \<and> drop lo (take (i + 1) xs) ! k \<noteq> None}"
    using window_nth[OF assms, of "b - lo" lo] window_length[OF assms, of lo] b by simp
qed

lemma rolling_mean_nth:
  assumes "i < length xs"
  shows "rolling_mean w 1 xs ! i =
     (if {k. i + 1 - w \<le> k \<and> k \<le> i \<and> xs ! k \<noteq> None} = {} then None
      else Some ((\<Sum>k\<in>{k. i + 1 - w \<le> k \<and> k \<le> i \<and> xs ! k \<noteq> None}. the (xs ! k))
                 / real (card {k. i + 1 - w \<le> k \<and> k \<le> i \<and> xs ! k \<noteq> None})))"
proof -
  let ?win = "drop (i + 1 - w) (take (i + 1) xs)"
  let ?S = "{k. i + 1 - w \<le> k \<and> k \<le> i \<and> xs ! k \<noteq> None}"
  have fin: "finite ?S" by simp
  have l: "length (dropna ?win) = card ?S"
    by (simp only: length_dropna window_valid_card[OF assms])
  have s: "sum_list (dropna ?win) = (\<Sum>k\<in>?S. the (xs ! k))"
    by (simp only: sum_list_dropna window_valid_sum[OF assms])
  have "rolling_mean w 1 xs ! i =
          (if 1 \<le> length (dropna ?win)
           then Some (sum_list (dropna ?win) / real (length (dropna ?win))) else None)"
    using assms by (simp add: rolling_mean_def Let_def)
  also have "\<dots> = (if ?S = {} then None else Some ((\<Sum>k\<in>?S. the (xs ! k)) / real (card ?S)))"
    unfolding l s using fin by (auto simp: Suc_le_eq card_gt_0_iff)
  finally show ?thesis .
qed

lemma dropna_replicate: "dropna (replicate m (Some v)) = replicate m v"
  by (induction m) simp_all

lemma rolling_mean_constant:
  assumes "i < n" and "1 \<le> w"
  shows "rolling_mean w 1 (replicate n (Some v)) ! i = Some (v::real)"
proof -
  have "min (Suc i) n - (Suc i - w) > 0" using assms by auto
  then show ?thesis
    using assms by (simp add: rolling_mean_def Let_def dropna_replicate sum_list_replicate Suc_le_eq)
qed

text \<open>
  Claim C8. For a window \<open>W \<ge> 1\<close> (15 by default), \<open>trailing_average\<close> returns a series
  of the length of its input whose value at index \<open>i\<close> is the mean of the entries at
  indices \<open>max 0 (i - W + 1)\<close> to \<open>i\<close> that are numbers, and is missing only when none of
  them is (one valid sample is enough, so partial windows at the start count). For a
  constant series of value \<open>v\<close> the output is \<open>v\<close> at every index, in particular at
  every index at or after the 15th of a series of at least 15 entries.
\<close>

theorem trailing_average_window_mean:
  assumes "1 \<le> W"
  shows "\<exists>out. trailing_average values W = Inr out \<and> length out = length values \<and>
     (\<forall>i<length values.
        out ! i =
          (if {k. i + 1 - nat W \<le> k \<and> k \<le> i \<and> values ! k \<noteq> None} = {} then None
           else Some ((\<Sum>k\<in>{k. i + 1 - nat W \<le> k \<and> k \<le> i \<and> values ! k \<noteq> None}. the (values ! k))
                      / real (card {k. i + 1 - nat W \<le> k \<and> k \<le> i \<and> values ! k \<noteq> None})))) \<and>
     (\<forall>v n. values = replicate n (Some v) \<longrightarrow> (\<forall>i<n. out ! i = Some v))"
proof -
  have r: "trailing_average values W = Inr (rolling_mean (nat W) 1 values)"
    using assms by (simp add: trailing_average_def)
  have w: "1 \<le> nat W" using assms by simp
  have l: "length (rolling_mean (nat W) 1 values) = length values"
    by (simp add: rolling_mean_def)
  show ?thesis
    apply (rule exI[of _ "rolling_mean (nat W) 1 values"])
    apply (intro conjI)
    subgoal by (rule r)
    subgoal by (rule l)
    subgoal using rolling_mean_nth[of _ "values" "nat W"] by blast
    subgoal using rolling_mean_constant[OF _ w] by blast
    done
qed

theorem trailing_average_window_mean_witness:
  "1 \<le> (15::int) \<and>
   (\<exists>out. trailing_average (replicate 20 (Some 3)) 15 = Inr out \<and> length out = 20 \<and>
      out ! 14 = Some 3 \<and> out ! 19 = Some 3)"
proof -
  obtain out where o: "trailing_average (replicate 20 (Some 3)) 15 = Inr out"
    "length out = length (replicate 20 (Some (3::real)))"
    "\<forall>v n. replicate 20 (Some 3) = replicate n (Some v) \<longrightarrow> (\<forall>i<n. out ! i = Some v)"
    using trailing_average_window_mean[of 15 "replicate 20 (Some 3)"] by auto
  from o(3) have "\<forall>i<20. out ! i = Some 3" by blast
  then have "out ! 14 = Some 3" "out ! 19 = Some 3" by simp_all
  then show ?thesis using o(1,2) by simp
qed

subsection \<open>Annual aggregation\<close>

lemma dropna_append: "dropna (xs @ ys) = dropna xs @ dropna ys"
  by (induction xs rule: dropna.induct) simp_all

lemma grid_dropna:
  fixes G :: "real option list list"
  shows "finite {(i, j). i < length G \<and> j < length (G ! i) \<and> G ! i ! j \<noteq> None} \<and>
     length (dropna (concat G)) = card {(i, j). i < length G \<and> j < length (G ! i) \<and> G ! i ! j \<noteq> None} \<and>
     sum_list (dropna (concat G))
       = (\<Sum>(i, j)\<in>{(i, j). i < length G \<and> j < length (G ! i) \<and> G ! i ! j \<noteq> None}. the (G ! i ! j))"
proof (induction G rule: rev_induct)
  case Nil
  then show ?case by simp
next
  case (snoc row G)
  let ?S = "{(i, j). i < length G \<and> j < length (G ! i) \<and> G ! i ! j \<noteq> None}"
  let ?R = "{j. j < length row \<and> row ! j \<noteq> None}"
  let ?N = "(\<lambda>j. (length G, j)) ` ?R"
  let ?S' = "{(i, j). i < length (G @ [row]) \<and> j < length ((G @ [row]) ! i) \<and> (G @ [row]) ! i ! j \<noteq> None}"
  have split: "?S' = ?S \<union> ?N"
    by (auto simp: nth_append less_Suc_eq)
  have disj: "?S \<inter> ?N = {}" by auto
  have finR: "finite ?R" by simp
  have finN: "finite ?N" using finR by simp
  have finS: "finite ?S" using snoc.IH by simp
  have inj: "inj_on (\<lambda>j. (length G, j)) ?R" by (simp add: inj_on_def)
  have cardN: "card ?N = card ?R" using inj by (rule card_image)
  have old: "(\<Sum>(i, j)\<in>?S. the ((G @ [row]) ! i ! j)) = (\<Sum>(i, j)\<in>?S. the (G ! i ! j))"
    by (rule sum.cong) (auto simp: nth_append)
  have new: "(\<Sum>(i, j)\<in>?N. the ((G @ [row]) ! i ! j)) = (\<Sum>j\<in>?R. the (row ! j))"
    using inj by (simp add: sum.reindex)
  have "length (dropna (concat (G @ [row]))) = card ?S + card ?R"
    using snoc.IH by (simp add: dropna_append length_dropna)
  also have "\<dots> = card ?S'"
    using card_Un_disjoint[OF finS finN disj] cardN split by simp
  finally have l: "length (dropna (concat (G @ [row]))) = card ?S'" .
  have "sum_list (dropna (concat (G @ [row])))
        = (\<Sum>(i, j)\<in>?S. the (G ! i ! j)) + (\<Sum>j\<in>?R. the (row ! j))"
    using snoc.IH by (simp add: dropna_append sum_list_dropna)
  also have "\<dots> = (\<Sum>(i, j)\<in>?S \<union> ?N. the ((G @ [row]) ! i ! j))"
    using sum.union_disjoint[OF finS finN disj, of "\<lambda>(i, j). the ((G @ [row]) ! i ! j)"] old new
    by simp
  finally have s: "sum_list (dropna (concat (G @ [row])))
        = (\<Sum>(i, j)\<in>?S'. the ((G @ [row]) ! i ! j))" using split by simp
  have "finite ?S'" using split finS finN by simp
  then show ?case using l s by blast
qed

lemma annual_counts_1d_nth:
  assumes "y < length years" and "length s = length tms"
  shows "annual_counts_1d tms years s ! y
         = card {t. t < length tms \<and> year (tms ! t) = years ! y \<and> s ! t}"
proof -
  have "filter id (map snd (filter (\<lambda>kx. fst kx = d) zs))
        = map snd (filter (\<lambda>kx. fst kx = d \<and> snd kx) zs)" for d and zs :: "(int \<times> bool) list"
    by (induction zs) auto
  then have "annual_counts_1d tms years s ! y
        = length (filter (\<lambda>kx. fst kx = years ! y \<and> snd kx) (zip (map year tms) s))"
    using assms(1) by (simp add: annual_counts_1d_def group_values_def)
  also have "\<dots> = card {t. t < length tms \<and> year (tms ! t) = years ! y \<and> s ! t}"
    using assms(2) by (auto simp: length_filter_conv_card intro!: arg_cong[where f=card])
  finally show ?thesis .
qed

lemma per_station_mean_nth:
  assumes c1: "length counts = nlat"
    and c2: "\<forall>i<nlat. length (counts ! i) = nlon \<and> (\<forall>j<nlon. length (counts ! i ! j) = ny)"
    and m1: "length m = nlat" and m2: "\<forall>i<nlat. length (m ! i) = nlon"
    and k: "k < ny"
  shows "per_station_mean ny counts m ! k =
     (if {(i, j). i < nlat \<and> j < nlon \<and> m ! i ! j} = {} then None
      else Some ((\<Sum>(i, j)\<in>{(i, j). i < nlat \<and> j < nlon \<and> m ! i ! j}. real (counts ! i ! j ! k))
                 / real (card {(i, j). i < nlat \<and> j < nlon \<and> m ! i ! j})))"
proof -
  let ?masked = "map2 (map2 (\<lambda>c m. map (\<lambda>x. if m then Some (real x) else None) c)) counts m"
  let ?G = "map (map (\<lambda>c. c ! k)) ?masked"
  let ?C = "{(i, j). i < nlat \<and> j < nlon \<and> m ! i ! j}"
  let ?S = "{(i, j). i < length ?G \<and> j < length (?G ! i) \<and> ?G ! i ! j \<noteq> None}"
  have lG: "length ?G = nlat" using c1 m1 by simp
  have lGi: "length (?G ! i) = nlon" if "i < nlat" for i
    using that c1 c2 m1 m2 by simp
  have Gij: "?G ! i ! j = (if m ! i ! j then Some (real (counts ! i ! j ! k)) else None)"
    if "i < nlat" "j < nlon" for i j
    using that c1 c2 m1 m2 k by simp
  have SC: "?S = ?C"
  proof (rule set_eqI)
    fix p :: "nat \<times> nat"
    obtain i j where p: "p = (i, j)" by (cases p)
    show "p \<in> ?S \<longleftrightarrow> p \<in> ?C"
      unfolding p using lG lGi[of i] Gij[of i j] by (cases "i < nlat"; cases "j < nlon"; simp)
  qed
  have sumeq: "(\<Sum>(i, j)\<in>?C. the (?G ! i ! j)) = (\<Sum>(i, j)\<in>?C. real (counts ! i ! j ! k))"
  proof (rule sum.cong)
    fix p assume "p \<in> ?C"
    then obtain i j where p: "p = (i, j)" "i < nlat" "j < nlon" "m ! i ! j" by auto
    have "the (?G ! i ! j) = real (counts ! i ! j ! k)"
      by (simp only: Gij[OF p(2,3)] p(4) if_True option.sel)
    then show "(case p of (i, j) \<Rightarrow> the (?G ! i ! j)) = (case p of (i, j) \<Rightarrow> real (counts ! i ! j ! k))"
      by (simp only: p(1) prod.case)
  qed (rule refl)
  note g = grid_dropna[of ?G, unfolded SC]
  have fin: "finite ?C" by (rule g[THEN conjunct1])
  have l: "length (dropna (concat ?G)) = card ?C" by (rule g[THEN conjunct2, THEN conjunct1])
  have sm: "sum_list (dropna (concat ?G)) = (\<Sum>(i, j)\<in>?C. real (counts ! i ! j ! k))"
    using g[THEN conjunct2, THEN conjunct2] by (simp only: sumeq)
  have "per_station_mean ny counts m ! k = nanmean (concat ?G)"
    using k by (simp add: per_station_mean_def Let_def)
  also have "\<dots> = (if dropna (concat ?G) = [] then None
                   else Some (sum_list (dropna (concat ?G)) / real (length (dropna (concat ?G)))))"
    by (simp add: nanmean_def Let_def)
  also have "\<dots> = (if ?C = {} then None
      else Some ((\<Sum>(i, j)\<in>?C. real (counts ! i ! j ! k)) / real (card ?C)))"
  proof -
    have "(dropna (concat ?G) = []) = (length (dropna (concat ?G)) = 0)" by simp
    also have "\<dots> = (card ?C = 0)" by (simp only: l)
    also have "\<dots> = (?C = {})" by (rule card_0_eq[OF fin])
    finally have "(dropna (concat ?G) = []) = (?C = {})" .
    then show ?thesis by (simp only: l sm)
  qed
  finally show ?thesis .
qed

lemma wf_array_nth:
  assumes "wf_array a"
  shows "length (vals a) = length (latitude a)"
    and "\<forall>i<length (latitude a). length (vals a ! i) = length (longitude a) \<and>
           (\<forall>j<length (longitude a). length (vals a ! i ! j) = length (dim0 a))"
  using assms by (auto simp: wf_array_def list_all_length)

lemma wf_mask_nth:
  assumes "wf_mask a m"
  shows "length m = length (latitude a)"
    and "\<forall>i<length (latitude a). length (m ! i) = length (longitude a)"
  using assms by (auto simp: wf_mask_def list_all_length)

lemma aggregate_Inr:
  assumes "dim0 heatwave_days \<noteq> []"
  shows "aggregate_annual_per_region heatwave_days region_masks =
     Inr (sort (remdups (map year (dim0 heatwave_days))),
          map (\<lambda>(region, mask2d).
                 (region, per_station_mean (length (sort (remdups (map year (dim0 heatwave_days)))))
                    (map (map (annual_counts_1d (dim0 heatwave_days)
                                 (sort (remdups (map year (dim0 heatwave_days))))))
                         (vals heatwave_days)) mask2d))
              region_masks)"
  using assms by (simp add: aggregate_annual_per_region_def Let_def)

text \<open>
  Claim C7. For a heatwave field with at least one day, of the shape of its coordinates,
  and region masks of the shape of the grid, \<open>aggregate_annual_per_region\<close> returns (it
  raises nothing) the sorted years of the record and one series for each region; the
  entry of a region and a year is missing when the mask of the region selects no cell,
  and is otherwise the mean, over exactly the cells that the mask selects, of the
  number of flagged days of the cell in that year. (Annual counts are sums of booleans,
  so the count of every cell is valid.)
\<close>

theorem regional_mean_or_no_data:
  assumes ne: "dim0 heatwave_days \<noteq> []" and wf: "wf_array heatwave_days"
    and wm: "\<forall>rm\<in>set region_masks. wf_mask heatwave_days (snd rm)"
  shows "\<exists>years regional.
     aggregate_annual_per_region heatwave_days region_masks = Inr (years, regional) \<and>
     years = sort (remdups (map year (dim0 heatwave_days))) \<and>
     length regional = length region_masks \<and>
     (\<forall>r<length region_masks.
        fst (regional ! r) = fst (region_masks ! r) \<and>
        length (snd (regional ! r)) = length years \<and>
        (\<forall>y<length years.
           snd (regional ! r) ! y =
             (if {(i, j). i < length (latitude heatwave_days) \<and> j < length (longitude heatwave_days) \<and>
                          snd (region_masks ! r) ! i ! j} = {}
              then None
              else Some ((\<Sum>(i, j)\<in>{(i, j). i < length (latitude heatwave_days) \<and>
                                           j < length (longitude heatwave_days) \<and>
                                           snd (region_masks ! r) ! i ! j}.
                            real (card {t. t < length (dim0 heatwave_days) \<and>
                                           year (dim0 heatwave_days ! t) = years ! y \<and>
                                           vals heatwave_days ! i ! j ! t}))
                         / real (card {(i, j). i < length (latitude heatwave_days) \<and>
                                              j < length (longitude heatwave_days) \<and>
                                              snd (region_masks ! r) ! i ! j})))))"
proof -
  let ?tms = "dim0 heatwave_days"
  let ?years = "sort (remdups (map year ?tms))"
  let ?counts = "map (map (annual_counts_1d ?tms ?years)) (vals heatwave_days)"
  let ?nlat = "length (latitude heatwave_days)"
  let ?nlon = "length (longitude heatwave_days)"
  let ?regional = "map (\<lambda>(region, mask2d).
                 (region, per_station_mean (length ?years) ?counts mask2d)) region_masks"
  have r: "aggregate_annual_per_region heatwave_days region_masks = Inr (?years, ?regional)"
    by (rule aggregate_Inr[OF ne])
  note w = wf_array_nth[OF wf]
  have c1: "length ?counts = ?nlat" using w(1) by simp
  have c2: "\<forall>i<?nlat. length (?counts ! i) = ?nlon \<and>
              (\<forall>j<?nlon. length (?counts ! i ! j) = length ?years)"
    using w by (simp add: annual_counts_1d_def)
  have cnt: "?counts ! i ! j ! y =
               card {t. t < length ?tms \<and> year (?tms ! t) = ?years ! y \<and> vals heatwave_days ! i ! j ! t}"
    if "i < ?nlat" "j < ?nlon" "y < length ?years" for i j y
  proof -
    have "?counts ! i ! j = annual_counts_1d ?tms ?years (vals heatwave_days ! i ! j)"
      using that w by simp
    moreover have "length (vals heatwave_days ! i ! j) = length ?tms" using that w by simp
    ultimately show ?thesis using annual_counts_1d_nth[OF that(3)] by simp
  qed
  have main: "fst (?regional ! r) = fst (region_masks ! r) \<and>
        length (snd (?regional ! r)) = length ?years \<and>
        (\<forall>y<length ?years.
           snd (?regional ! r) ! y =
             (if {(i, j). i < ?nlat \<and> j < ?nlon \<and> snd (region_masks ! r) ! i ! j} = {}
              then None
              else Some ((\<Sum>(i, j)\<in>{(i, j). i < ?nlat \<and> j < ?nlon \<and> snd (region_masks ! r) ! i ! j}.
                            real (card {t. t < length ?tms \<and> year (?tms ! t) = ?years ! y \<and>
                                           vals heatwave_days ! i ! j ! t}))
                         / real (card {(i, j). i < ?nlat \<and> j < ?nlon \<and>
                                              snd (region_masks ! r) ! i ! j}))))"
    if rr: "r < length region_masks" for r
  proof -
    obtain region m where rm: "region_masks ! r = (region, m)" by (cases "region_masks ! r")
    let ?C = "{(i, j). i < ?nlat \<and> j < ?nlon \<and> m ! i ! j}"
    have reg: "?regional ! r = (region, per_station_mean (length ?years) ?counts m)"
      using rr rm by simp
    have "wf_mask heatwave_days m" using wm rr rm by (metis nth_mem snd_conv)
    note wmm = wf_mask_nth[OF this]
    have len: "length (per_station_mean (length ?years) ?counts m) = length ?years"
      by (simp add: per_station_mean_def Let_def)
    have val: "per_station_mean (length ?years) ?counts m ! y =
             (if ?C = {} then None
              else Some ((\<Sum>(i, j)\<in>?C.
                            real (card {t. t < length ?tms \<and> year (?tms ! t) = ?years ! y \<and>
                                           vals heatwave_days ! i ! j ! t}))
                         / real (card ?C)))"
      if yy: "y < length ?years" for y
    proof -
      have "(\<Sum>(i, j)\<in>?C. real (?counts ! i ! j ! y)) =
            (\<Sum>(i, j)\<in>?C. real (card {t. t < length ?tms \<and> year (?tms ! t) = ?years ! y \<and>
                                           vals heatwave_days ! i ! j ! t}))"
      proof (rule sum.cong)
        fix p assume "p \<in> ?C"
        then obtain i j where p: "p = (i, j)" "i < ?nlat" "j < ?nlon" by auto
        show "(case p of (i, j) \<Rightarrow> real (?counts ! i ! j ! y)) =
              (case p of (i, j) \<Rightarrow> real (card {t. t < length ?tms \<and> year (?tms ! t) = ?years ! y \<and>
                                           vals heatwave_days ! i ! j ! t}))"
          by (simp only: p(1) prod.case cnt[OF p(2,3) yy])
      qed (rule refl)
      then show ?thesis
        using per_station_mean_nth[OF c1 c2 wmm(1) wmm(2) yy] by (simp only:)
    qed
    show ?thesis by (simp only: reg rm fst_conv snd_conv len) (use val in blast)
  qed
  show ?thesis
    apply (rule exI[of _ ?years], rule exI[of _ ?regional])
    apply (intro conjI)
    subgoal by (rule r)
    subgoal by (rule refl)
    subgoal by simp
    subgoal using main by blast
    done
qed

lemma example_aggregate:
  "aggregate_annual_per_region example_heatwave example_masks =
     Inr ([2001, 2002],
          [(''West'', [None, None]), (''Central-East'', [Some (1 / 2), Some (1 / 2)]),
           (''US48'', [Some 1, Some (1 / 3)])])"
  by (simp add: aggregate_annual_per_region_def example_heatwave_def example_masks_def
        per_station_mean_def annual_counts_1d_def group_values_def nanmean_def Let_def
        upt_rec[of 0] upt_rec[of 1] upt_rec[of "Suc 0"])

theorem regional_mean_or_no_data_witness:
  "dim0 example_heatwave \<noteq> [] \<and> wf_array example_heatwave \<and>
   list_all (\<lambda>rm. wf_mask example_heatwave (snd rm)) example_masks \<and>
   (\<exists>years regional.
      aggregate_annual_per_region example_heatwave example_masks = Inr (years, regional) \<and>
      years = [2001, 2002] \<and>
      regional = [(''West'', [None, None]), (''Central-East'', [Some (1 / 2), Some (1 / 2)]),
                  (''US48'', [Some 1, Some (1 / 3)])] \<and>
      snd (regional ! 0) ! 0 = None)"
proof -
  have ne: "dim0 example_heatwave \<noteq> []" by (simp add: example_heatwave_def)
  have wf: "wf_array example_heatwave" by (simp add: example_heatwave_def wf_array_def)
  have wm: "\<forall>rm\<in>set example_masks. wf_mask example_heatwave (snd rm)"
    by (simp add: example_heatwave_def example_masks_def wf_mask_def)
  obtain years regional where
    a: "aggregate_annual_per_region example_heatwave example_masks = Inr (years, regional)"
    and p: "\<forall>r<length example_masks.
        fst (regional ! r) = fst (example_masks ! r) \<and>
        length (snd (regional ! r)) = length years \<and>
        (\<forall>y<length years.
           snd (regional ! r) ! y =
             (if {(i, j). i < length (latitude example_heatwave) \<and> j < length (longitude example_heatwave) \<and>
                          snd (example_masks ! r) ! i ! j} = {}
              then None
              else Some ((\<Sum>(i, j)\<in>{(i, j). i < length (latitude example_heatwave) \<and>
                                           j < length (longitude example_heatwave) \<and>
                                           snd (example_masks ! r) ! i ! j}.
                            real (card {t. t < length (dim0 example_heatwave) \<and>
                                           year (dim0 example_heatwave ! t) = years ! y \<and>
                                           vals example_heatwave ! i ! j ! t}))
                         / real (card {(i, j). i < length (latitude example_heatwave) \<and>
                                              j < length (longitude example_heatwave) \<and>
                                              snd (example_masks ! r) ! i ! j}))))"
    using regional_mean_or_no_data[OF ne wf wm] by blast
  have y: "years = [2001, 2002]"
    and rg: "regional = [(''West'', [None, None]), (''Central-East'', [Some (1 / 2), Some (1 / 2)]),
                  (''US48'', [Some 1, Some (1 / 3)])]"
    using a example_aggregate by simp_all
  have e: "{(i, j). i < length (latitude example_heatwave) \<and> j < length (longitude example_heatwave) \<and>
                          snd (example_masks ! 0) ! i ! j} = {}"
  proof -
    have "\<not> [[False, False, False]] ! i ! j" if "i < 1" and "j < 3" for i j :: nat
    proof -
      have "i = 0" using that(1) by simp
      moreover have "j = 0 \<or> j = 1 \<or> j = 2" using that(2) by linarith
      ultimately show ?thesis by auto
    qed
    then show ?thesis by (auto simp: example_heatwave_def example_masks_def)
  qed
  have "snd (regional ! 0) ! 0 = None"
    using p[rule_format, of 0, THEN conjunct2, THEN conjunct2, rule_format, of 0] y
    by (simp only: e if_True) (simp add: example_masks_def)
  moreover have "list_all (\<lambda>rm. wf_mask example_heatwave (snd rm)) example_masks"
    using wm by (simp only: list_all_iff)
  ultimately show ?thesis using ne wf a y rg by blast
qed

subsection \<open>Thresholds\<close>

lemma quantile_sorted_eq:
  assumes "xs \<noteq> []" and "0 \<le> p" and "p \<le> 1"
  shows "quantile_sorted p xs = linear_interpolation_quantile p xs"
proof -
  define n where "n = length xs"
  define v where "v = real (n - 1) * p"
  define m where "m = nat \<lfloor>v\<rfloor>"
  have n: "0 < n" using assms(1) by (simp add: n_def)
  have v0: "0 \<le> v" using assms(2) by (simp add: v_def)
  have v1: "v \<le> real (n - 1)" using assms(2,3) by (simp add: v_def mult_left_le)
  have fl: "nat \<lfloor>v + 1\<rfloor> = m + 1" using v0 by (simp add: m_def nat_add_distrib)
  have "\<lfloor>v\<rfloor> \<le> int (n - 1)" using v1 by (simp add: floor_le_iff)
  then have le: "m \<le> n - 1" by (simp add: m_def)
  have q: "quantile_sorted p xs = xs ! m + (v - real m) * (xs ! min (m + 1) (n - 1) - xs ! m)"
    unfolding quantile_sorted_def Let_def m_def v_def n_def by (rule refl)
  have "linear_interpolation_quantile p xs =
          (if n \<le> nat \<lfloor>v + 1\<rfloor> then xs ! (n - 1)
           else xs ! (nat \<lfloor>v + 1\<rfloor> - 1)
                + (v + 1 - real (nat \<lfloor>v + 1\<rfloor>)) * (xs ! nat \<lfloor>v + 1\<rfloor> - xs ! (nat \<lfloor>v + 1\<rfloor> - 1)))"
    unfolding linear_interpolation_quantile_def Let_def v_def n_def by (rule refl)
  then have l: "linear_interpolation_quantile p xs =
          (if n \<le> m + 1 then xs ! (n - 1)
           else xs ! m + (v - real m) * (xs ! (m + 1) - xs ! m))"
    by (simp only: fl) simp
  show ?thesis
  proof (cases "n \<le> m + 1")
    case True
    then have "m = n - 1" using le n by linarith
    then show ?thesis using True by (simp add: q l)
  next
    case False
    then have "min (m + 1) (n - 1) = m + 1" by linarith
    then show ?thesis using False by (simp only: q l if_False)
  qed
qed

lemma zip_conv_nth:
  assumes "length ks = length s"
  shows "zip ks s = map (\<lambda>t. (ks ! t, s ! t)) [0..<length s]"
  using assms by (intro nth_equalityI) simp_all

lemma group_values_nth:
  assumes "length ks = length s"
  shows "group_values ks s d = map (\<lambda>t. s ! t) (filter (\<lambda>t. ks ! t = d) [0..<length s])"
  by (simp add: group_values_def zip_conv_nth[OF assms] filter_map comp_def)

lemma nanquantile_spec:
  assumes "0 \<le> q" and "q \<le> 1"
  shows "nanquantile q vs =
     (if dropna vs = [] then None else Some (linear_interpolation_quantile q (sort (dropna vs))))"
proof (cases "dropna vs = []")
  case True
  then show ?thesis by (simp add: nanquantile_def)
next
  case False
  then have ne: "sort (dropna vs) \<noteq> []" by (metis length_0_conv length_sort)
  then show ?thesis
    using False quantile_sorted_eq[OF ne assms] by (simp add: nanquantile_def Let_def)
qed

lemma group_by_dayofyear:
  assumes "length s = length tms"
  shows "group_values (map dayofyear tms) s d =
         map (\<lambda>t. s ! t) (filter (\<lambda>t. dayofyear (tms ! t) = d) [0..<length tms])"
proof -
  have "filter (\<lambda>t. map dayofyear tms ! t = d) [0..<length s]
        = filter (\<lambda>t. dayofyear (tms ! t) = d) [0..<length s]"
    using assms by (intro filter_cong) simp_all
  then show ?thesis
    using group_values_nth[of "map dayofyear tms" s d] assms by simp
qed

lemma compute_thresholds_Inr:
  assumes "dim0 may_sep \<noteq> []"
  shows "compute_daily_90th_thresholds may_sep =
     Inr \<lparr> dim0 = sort (remdups (map dayofyear (dim0 may_sep))),
           latitude = latitude may_sep, longitude = longitude may_sep,
           vals = map (map (\<lambda>s. map (\<lambda>d. nanquantile (9 / 10)
                                            (group_values (map dayofyear (dim0 may_sep)) s d))
                                  (sort (remdups (map dayofyear (dim0 may_sep))))))
                      (vals may_sep) \<rparr>"
  using assms by (simp add: compute_daily_90th_thresholds_def Let_def)

text \<open>
  Claim C5. For a seasonal field with at least one day, of the shape of its coordinates,
  \<open>compute_daily_90th_thresholds\<close> returns a field whose leading coordinate lists each
  day-of-year of the record exactly once, in increasing order, on the same grid, with
  one value for each day-of-year and cell: the linear-interpolation 0.9 quantile of the
  observations of that cell at the days of the record with that day-of-year, over all
  years, after the missing observations are removed (they are dropped, not counted as
  zero); the value is missing when no observation is left. Arithmetic is exact.
\<close>

theorem thresholds_are_90th_percentiles:
  assumes ne: "dim0 may_sep \<noteq> []" and wf: "wf_array may_sep"
  shows "\<exists>thr. compute_daily_90th_thresholds may_sep = Inr thr \<and>
     sorted (dim0 thr) \<and> distinct (dim0 thr) \<and>
     set (dim0 thr) = dayofyear ` set (dim0 may_sep) \<and>
     latitude thr = latitude may_sep \<and> longitude thr = longitude may_sep \<and>
     length (vals thr) = length (latitude may_sep) \<and>
     (\<forall>i<length (latitude may_sep).
        length (vals thr ! i) = length (longitude may_sep) \<and>
        (\<forall>j<length (longitude may_sep).
           length (vals thr ! i ! j) = length (dim0 thr) \<and>
           (\<forall>k<length (dim0 thr).
              vals thr ! i ! j ! k =
                (let obs = dropna (map (\<lambda>t. vals may_sep ! i ! j ! t)
                                    (filter (\<lambda>t. dayofyear (dim0 may_sep ! t) = dim0 thr ! k)
                                            [0..<length (dim0 may_sep)]))
                 in if obs = [] then None
                    else Some (linear_interpolation_quantile (9 / 10) (sort obs))))))"
proof -
  let ?tms = "dim0 may_sep"
  let ?groups = "sort (remdups (map dayofyear ?tms))"
  let ?v = "map (map (\<lambda>s. map (\<lambda>d. nanquantile (9 / 10)
                                            (group_values (map dayofyear ?tms) s d)) ?groups))
                (vals may_sep)"
  let ?thr = "\<lparr> dim0 = ?groups, latitude = latitude may_sep, longitude = longitude may_sep,
                vals = ?v \<rparr>"
  have r: "compute_daily_90th_thresholds may_sep = Inr ?thr"
    by (rule compute_thresholds_Inr[OF ne])
  note w = wf_array_nth[OF wf]
  have cell: "length (?v ! i ! j) = length ?groups \<and>
           (\<forall>k<length ?groups.
              ?v ! i ! j ! k =
                (let obs = dropna (map (\<lambda>t. vals may_sep ! i ! j ! t)
                                    (filter (\<lambda>t. dayofyear (?tms ! t) = ?groups ! k)
                                            [0..<length ?tms]))
                 in if obs = [] then None
                    else Some (linear_interpolation_quantile (9 / 10) (sort obs))))"
    if i: "i < length (latitude may_sep)" and j: "j < length (longitude may_sep)" for i j
  proof -
    have vij: "?v ! i ! j = map (\<lambda>d. nanquantile (9 / 10)
                 (group_values (map dayofyear ?tms) (vals may_sep ! i ! j) d)) ?groups"
      using i j w by simp
    have len: "length (vals may_sep ! i ! j) = length ?tms" using i j w by simp
    have "?v ! i ! j ! k =
                (let obs = dropna (map (\<lambda>t. vals may_sep ! i ! j ! t)
                                    (filter (\<lambda>t. dayofyear (?tms ! t) = ?groups ! k)
                                            [0..<length ?tms]))
                 in if obs = [] then None
                    else Some (linear_interpolation_quantile (9 / 10) (sort obs)))"
      if k: "k < length ?groups" for k
    proof -
      have "?v ! i ! j ! k = nanquantile (9 / 10)
                 (group_values (map dayofyear ?tms) (vals may_sep ! i ! j) (?groups ! k))"
        using k by (simp only: vij nth_map)
      then show ?thesis
        by (simp only: group_by_dayofyear[OF len] Let_def)
           (rule nanquantile_spec, simp_all)
    qed
    then show ?thesis by (simp only: vij length_map) blast
  qed
  have shape: "length ?v = length (latitude may_sep)"
    "\<forall>i<length (latitude may_sep). length (?v ! i) = length (longitude may_sep)"
    using w by simp_all
  show ?thesis
    apply (rule exI[of _ ?thr])
    apply (simp only: r data_array.select_convs)
    apply (intro conjI)
    subgoal by (rule refl)
    subgoal by simp
    subgoal by simp
    subgoal by simp
    subgoal by (rule refl)
    subgoal by (rule refl)
    subgoal by (rule shape(1))
    subgoal using shape(2) cell by blast
    done
qed

lemma months_before_may: "[Suc 0..<5] = [1, 2, 3, 4]"
  by code_simp

lemma dayofyear_may:
  "dayofyear \<lparr> year = y, month = 5, day = d \<rparr> = (if is_leap_year y then 121 else 120) + d"
  by (simp add: dayofyear_def months_before_may days_in_month_def)

lemma gappy_thresholds:
  "compute_daily_90th_thresholds gappy_may_sep =
     Inr \<lparr> dim0 = [121], latitude = [40], longitude = [- 100, - 90],
           vals = [[[Some 19], [None]]] \<rparr>"
  by (simp add: compute_daily_90th_thresholds_def gappy_may_sep_def dayofyear_may
        is_leap_year_def group_values_def nanquantile_def quantile_sorted_def Let_def)

theorem thresholds_are_90th_percentiles_witness:
  "dim0 gappy_may_sep \<noteq> [] \<and> wf_array gappy_may_sep \<and>
   (\<exists>thr. compute_daily_90th_thresholds gappy_may_sep = Inr thr \<and>
      sorted (dim0 thr) \<and> distinct (dim0 thr) \<and>
      set (dim0 thr) = dayofyear ` set (dim0 gappy_may_sep) \<and>
      dim0 thr = [121] \<and> vals thr = [[[Some 19], [None]]])"
proof -
  have ne: "dim0 gappy_may_sep \<noteq> []" by (simp add: gappy_may_sep_def)
  have wf: "wf_array gappy_may_sep" by (simp add: gappy_may_sep_def wf_array_def)
  obtain thr where t: "compute_daily_90th_thresholds gappy_may_sep = Inr thr"
    "sorted (dim0 thr)" "distinct (dim0 thr)"
    "set (dim0 thr) = dayofyear ` set (dim0 gappy_may_sep)"
    using thresholds_are_90th_percentiles[OF ne wf] by blast
  have "thr = \<lparr> dim0 = [121], latitude = [40], longitude = [- 100, - 90],
                vals = [[[Some 19], [None]]] \<rparr>"
    using t(1) by (simp only: gappy_thresholds sum.inject)
  then have "dim0 thr = [121]" "vals thr = [[[Some 19], [None]]]" by simp_all
  then show ?thesis using ne wf t by blast
qed

end
